theory Spec2Isabelle
  imports Main "HOL-Library.Word"
begin

section \<open>Numbers as text\<close>

text \<open>
  \<open>Number.prototype.toString(radix)\<close> on a non-negative integer, for the two radices the
  sources use: 16 in the \<open>int128\<close> codec of \<open>types.js\<close>, 10 where an index is spliced
  into a template string (\<open>`${path}.items[${i}]`\<close>) or names an own property of an array.
\<close>

definition digitChar :: "nat \<Rightarrow> char" where
  "digitChar d = ''0123456789abcdefghijklmnopqrstuvwxyz'' ! d"

fun toStringRadix :: "nat \<Rightarrow> nat \<Rightarrow> string" where
  "toStringRadix r n =
     (if r < 2 \<or> n < r then [digitChar n]
      else toStringRadix r (n div r) @ [digitChar (n mod r)])"

declare toStringRadix.simps [simp del]

text \<open>
  \<open>String.prototype.padStart(targetLength, padString)\<close>: the pad string is repeated and
  cut to the missing length.
\<close>

definition padStart :: "nat \<Rightarrow> string \<Rightarrow> string \<Rightarrow> string" where
  "padStart n p s =
     (if n \<le> length s \<or> p = [] then s
      else take (n - length s) (concat (replicate (n - length s) p)) @ s)"

section \<open>types.js: the reverse conversion of int128\<close>

text \<open>
  The storage value is a \<open>Decimal128\<close>, whose \<open>bytes\<close> field is a byte buffer. The
  function registered as \<open>fromDb\<close> for \<open>int128\<close> is
  \<^verbatim>\<open>
    let i = data.bytes.length - 1
    while (!data.bytes[i] && i >= 0) i--
    if (i < 0) return '0x00'
    let str = '0x'
    while (i >= 0) { str += data.bytes[i].toString(16).padStart(2, '00'); i-- }
    return str
  \<close>
  The index is an \<open>int\<close>, as it goes down to \<open>-1\<close>. Reading a buffer outside its range
  gives \<open>undefined\<close>, which \<open>!\<close> turns into \<open>true\<close>: \<open>byteFalsy\<close> is \<open>!data.bytes[i]\<close>.
\<close>

type_synonym byte = "8 word"

definition byteFalsy :: "byte list \<Rightarrow> int \<Rightarrow> bool" where
  "byteFalsy bytes i = (if 0 \<le> i \<and> i < int (length bytes) then bytes ! nat i = 0 else True)"

function skipHighZeros :: "byte list \<Rightarrow> int \<Rightarrow> int" where
  "skipHighZeros bytes i = (if byteFalsy bytes i \<and> i \<ge> 0 then skipHighZeros bytes (i - 1) else i)"
  by pat_completeness auto
termination
  by (relation "measure (\<lambda>(bytes, i). nat (i + 1))") auto

declare skipHighZeros.simps [simp del]

definition byteHex :: "byte \<Rightarrow> string" where
  "byteHex b = padStart 2 ''00'' (toStringRadix 16 (unat b))"

function appendHex :: "byte list \<Rightarrow> int \<Rightarrow> string \<Rightarrow> string" where
  "appendHex bytes i str =
     (if i \<ge> 0 then appendHex bytes (i - 1) (str @ byteHex (bytes ! nat i)) else str)"
  by pat_completeness auto
termination
  by (relation "measure (\<lambda>(bytes, i, str). nat (i + 1))") auto

declare appendHex.simps [simp del]

definition int128_fromDb :: "byte list \<Rightarrow> string" where
  "int128_fromDb bytes =
     (let i = skipHighZeros bytes (int (length bytes) - 1)
      in if i < 0 then ''0x00'' else appendHex bytes i ''0x'')"

section \<open>JavaScript values\<close>

text \<open>
  The values a schema is made of: the JSON values, \<open>undefined\<close> and dates (the three
  kinds of object \<open>clone\<close> copies). Numbers are restricted to the integers. An object
  is the list of its own enumerable properties in enumeration order, with distinct
  keys; object identity is not part of the model, the schema being a tree.
\<close>

datatype jv =
    JUndef
  | JNull
  | JBool bool
  | JNum int
  | JStr string
  | JDate int
  | JArr "jv list"
  | JObj "(string \<times> jv) list"

fun truthy :: "jv \<Rightarrow> bool" where
  "truthy JUndef = False"
| "truthy JNull = False"
| "truthy (JBool b) = b"
| "truthy (JNum n) = (n \<noteq> 0)"
| "truthy (JStr s) = (s \<noteq> [])"
| "truthy _ = True"

text \<open>\<open>x instanceof Array\<close> and \<open>x instanceof Object\<close>.\<close>

fun instanceofArray :: "jv \<Rightarrow> bool" where
  "instanceofArray (JArr xs) = True"
| "instanceofArray _ = False"

fun instanceofObject :: "jv \<Rightarrow> bool" where
  "instanceofObject (JArr xs) = True"
| "instanceofObject (JObj kvs) = True"
| "instanceofObject (JDate t) = True"
| "instanceofObject _ = False"

text \<open>
  \<open>===\<close>, as \<open>Array.prototype.indexOf\<close> applies it: primitives are compared by
  value, and two objects of a schema tree are never the same object.
\<close>

definition strictEq :: "jv \<Rightarrow> jv \<Rightarrow> bool" where
  "strictEq a b = (\<not> instanceofObject a \<and> a = b)"

definition includesJs :: "jv list \<Rightarrow> jv \<Rightarrow> bool" where
  "includesJs xs v = list_ex (\<lambda>x. strictEq x v) xs"

text \<open>
  A property key is an array index when it is the canonical decimal form of a number
  below \<open>2^32 - 1\<close>. Such keys name the elements of an array and the characters of a
  string, and an object enumerates them first, in ascending order.
\<close>

definition digitsValue :: "string \<Rightarrow> nat" where
  "digitsValue k = foldl (\<lambda>a c. 10 * a + (of_char c - 48)) 0 k"

definition arrayIndex :: "string \<Rightarrow> nat option" where
  "arrayIndex k =
     (if k \<noteq> [] \<and> list_all (\<lambda>c. c \<in> set ''0123456789'') k \<and> (k = ''0'' \<or> hd k \<noteq> CHR ''0'')
      then (let n = digitsValue k in if n < 4294967295 then Some n else None)
      else None)"

definition indexKeys :: "nat \<Rightarrow> string list" where
  "indexKeys n = map (toStringRadix 10) [0..<n]"

text \<open>The own enumerable properties, as \<open>for (k in x)\<close>, \<open>Object.keys(x)\<close> and \<open>{...x}\<close> see them.\<close>

fun ownProps :: "jv \<Rightarrow> (string \<times> jv) list" where
  "ownProps (JObj kvs) = kvs"
| "ownProps (JArr xs) = zip (indexKeys (length xs)) xs"
| "ownProps (JStr s) = zip (indexKeys (length s)) (map (\<lambda>c. JStr [c]) s)"
| "ownProps _ = []"

text \<open>
  \<open>x[k]\<close> for an own property \<open>k\<close> of a value that is neither \<open>null\<close> nor \<open>undefined\<close>;
  for a key that is not an own property this is \<open>undefined\<close>. The two files read the
  properties \<open>$ref\<close>, \<open>properties\<close>, \<open>items\<close>, \<open>additionalItems\<close>, \<open>additionalProperties\<close>,
  \<open>required\<close>, \<open>unmodifiableProperties\<close>, \<open>upsert\<close>, \<open>insert\<close>, \<open>update\<close>, \<open>mongoType\<close> and
  \<open>encoding\<close> by name; no prototype of the standard library has a member of one of these
  names, so that for them the own properties decide. A key that comes from the data (a
  field name of a document, a segment of a \<open>$ref\<close>) is read by \<open>member\<close> below.
\<close>

fun getProp :: "jv \<Rightarrow> string \<Rightarrow> jv" where
  "getProp (JObj kvs) k = (case map_of kvs k of Some v \<Rightarrow> v | None \<Rightarrow> JUndef)"
| "getProp (JArr xs) k =
     (if k = ''length'' then JNum (int (length xs))
      else case arrayIndex k of
             Some i \<Rightarrow> if i < length xs then xs ! i else JUndef
           | None \<Rightarrow> JUndef)"
| "getProp (JStr s) k =
     (if k = ''length'' then JNum (int (length s))
      else case arrayIndex k of
             Some i \<Rightarrow> if i < length s then JStr [s ! i] else JUndef
           | None \<Rightarrow> JUndef)"
| "getProp _ k = JUndef"

fun hasOwn :: "jv \<Rightarrow> string \<Rightarrow> bool" where
  "hasOwn (JObj kvs) k = (map_of kvs k \<noteq> None)"
| "hasOwn (JArr xs) k =
     (k = ''length'' \<or> (case arrayIndex k of Some i \<Rightarrow> i < length xs | None \<Rightarrow> False))"
| "hasOwn (JStr s) k =
     (k = ''length'' \<or> (case arrayIndex k of Some i \<Rightarrow> i < length s | None \<Rightarrow> False))"
| "hasOwn _ k = False"

text \<open>
  The names of the members that a value inherits: those of \<open>Object.prototype\<close> for every
  value, and before them those of the prototype of its own kind. (What
  \<open>Number.prototype\<close> and \<open>Boolean.prototype\<close> have beyond the names listed, \<open>toString\<close>,
  \<open>valueOf\<close> and \<open>toLocaleString\<close>, has a name of \<open>Object.prototype\<close>.)
\<close>

definition objectPrototypeNames :: "string list" where
  "objectPrototypeNames =
     [''constructor'', ''__defineGetter__'', ''__defineSetter__'', ''hasOwnProperty'',
      ''__lookupGetter__'', ''__lookupSetter__'', ''isPrototypeOf'', ''propertyIsEnumerable'',
      ''toString'', ''valueOf'', ''__proto__'', ''toLocaleString'']"

definition arrayPrototypeNames :: "string list" where
  "arrayPrototypeNames =
     [''at'', ''concat'', ''copyWithin'', ''entries'', ''every'', ''fill'', ''filter'', ''find'',
      ''findIndex'', ''findLast'', ''findLastIndex'', ''flat'', ''flatMap'', ''forEach'',
      ''includes'', ''indexOf'', ''join'', ''keys'', ''lastIndexOf'', ''map'', ''pop'', ''push'',
      ''reduce'', ''reduceRight'', ''reverse'', ''shift'', ''slice'', ''some'', ''sort'', ''splice'',
      ''toReversed'', ''toSorted'', ''toSpliced'', ''unshift'', ''values'', ''with'']"

definition stringPrototypeNames :: "string list" where
  "stringPrototypeNames =
     [''anchor'', ''at'', ''big'', ''blink'', ''bold'', ''charAt'', ''charCodeAt'', ''codePointAt'',
      ''concat'', ''endsWith'', ''fixed'', ''fontcolor'', ''fontsize'', ''includes'', ''indexOf'',
      ''isWellFormed'', ''italics'', ''lastIndexOf'', ''link'', ''localeCompare'', ''match'',
      ''matchAll'', ''normalize'', ''padEnd'', ''padStart'', ''repeat'', ''replace'', ''replaceAll'',
      ''search'', ''slice'', ''small'', ''split'', ''startsWith'', ''strike'', ''sub'', ''substr'',
      ''substring'', ''sup'', ''toLocaleLowerCase'', ''toLocaleUpperCase'', ''toLowerCase'',
      ''toUpperCase'', ''toWellFormed'', ''trim'', ''trimEnd'', ''trimLeft'', ''trimRight'',
      ''trimStart'']"

definition numberPrototypeNames :: "string list" where
  "numberPrototypeNames = [''toExponential'', ''toFixed'', ''toPrecision'']"

definition datePrototypeNames :: "string list" where
  "datePrototypeNames =
     [''getDate'', ''getDay'', ''getFullYear'', ''getHours'', ''getMilliseconds'', ''getMinutes'',
      ''getMonth'', ''getSeconds'', ''getTime'', ''getTimezoneOffset'', ''getUTCDate'',
      ''getUTCDay'', ''getUTCFullYear'', ''getUTCHours'', ''getUTCMilliseconds'',
      ''getUTCMinutes'', ''getUTCMonth'', ''getUTCSeconds'', ''getYear'', ''setDate'',
      ''setFullYear'', ''setHours'', ''setMilliseconds'', ''setMinutes'', ''setMonth'',
      ''setSeconds'', ''setTime'', ''setUTCDate'', ''setUTCFullYear'', ''setUTCHours'',
      ''setUTCMilliseconds'', ''setUTCMinutes'', ''setUTCMonth'', ''setUTCSeconds'', ''setYear'',
      ''toDateString'', ''toGMTString'', ''toISOString'', ''toJSON'', ''toLocaleDateString'',
      ''toLocaleTimeString'', ''toTimeString'', ''toUTCString'']"

fun inheritedNames :: "jv \<Rightarrow> string list" where
  "inheritedNames (JObj kvs) = objectPrototypeNames"
| "inheritedNames (JArr xs) = arrayPrototypeNames @ objectPrototypeNames"
| "inheritedNames (JStr s) = stringPrototypeNames @ objectPrototypeNames"
| "inheritedNames (JNum n) = numberPrototypeNames @ objectPrototypeNames"
| "inheritedNames (JBool b) = objectPrototypeNames"
| "inheritedNames (JDate t) = datePrototypeNames @ objectPrototypeNames"
| "inheritedNames _ = []"

text \<open>
  \<open>x[k]\<close> for a key that comes from the data, on a value that is neither \<open>null\<close> nor
  \<open>undefined\<close>: an own property, or else an inherited member, or else \<open>undefined\<close>. An
  inherited member is a function of the standard library or, for \<open>__proto__\<close>, a prototype
  object. Such an object is truthy, has no own enumerable property and has none of the
  properties that the two files read by name: where they test it for truth, spread it or
  read \<open>$ref\<close>, \<open>properties\<close>, \<open>items\<close>, \<open>mongoType\<close> or \<open>encoding\<close> of it, it is as the empty
  object, which stands for it here. Its own members (\<open>name\<close>, \<open>length\<close>, ...) are not
  modelled: \<open>staysInTree\<close> below tells the references that never read one.
\<close>

definition builtinObject :: jv where
  "builtinObject = JObj []"

definition member :: "jv \<Rightarrow> string \<Rightarrow> jv" where
  "member x k =
     (if hasOwn x k then getProp x k
      else if k \<in> set (inheritedNames x) then builtinObject
      else JUndef)"

text \<open>
  \<open>obj[k] = v\<close> on an object: an existing key keeps its place; a new array-index key
  goes before the first key that is not a smaller array index; any other new key goes
  last.
\<close>

definition keyBefore :: "string \<Rightarrow> string \<Rightarrow> bool" where
  "keyBefore k k' =
     (case arrayIndex k of
        None \<Rightarrow> False
      | Some i \<Rightarrow> (case arrayIndex k' of None \<Rightarrow> True | Some j \<Rightarrow> i < j))"

fun objSet :: "(string \<times> 'a) list \<Rightarrow> string \<Rightarrow> 'a \<Rightarrow> (string \<times> 'a) list" where
  "objSet [] k v = [(k, v)]"
| "objSet ((k', v') # kvs) k v =
     (if k' = k then (k, v) # kvs
      else if keyBefore k k' \<and> map_of kvs k = None then (k, v) # (k', v') # kvs
      else (k', v') # objSet kvs k v)"

text \<open>
  \<open>obj[k] = v\<close> where \<open>k\<close> comes from the data and \<open>obj\<close> is an object that the code builds
  from \<open>{}\<close>. For \<open>k = '__proto__'\<close> the assignment reaches the setter that \<open>obj\<close> inherits
  from \<open>Object.prototype\<close>, unless \<open>obj\<close> has an own property of that name: no property is
  added. (The setter makes \<open>v\<close> the prototype of \<open>obj\<close> when \<open>v\<close> is an object or \<open>null\<close>; the
  prototype of a result is not part of the model, and no statement of the two files
  reads a result again.)
\<close>

definition assign :: "(string \<times> 'a) list \<Rightarrow> string \<Rightarrow> 'a \<Rightarrow> (string \<times> 'a) list" where
  "assign kvs k v = (if k = ''__proto__'' \<and> map_of kvs k = None then kvs else objSet kvs k v)"

text \<open>\<open>delete obj[k]\<close>.\<close>

definition objDelete :: "(string \<times> 'a) list \<Rightarrow> string \<Rightarrow> (string \<times> 'a) list" where
  "objDelete kvs k = filter (\<lambda>(k', v). k' \<noteq> k) kvs"

text \<open>
  \<open>{...a, ...b}\<close>: the own properties of \<open>a\<close>, then those of \<open>b\<close>, each defined as an own
  property of the new object (also \<open>__proto__\<close>: a spread calls no setter).
\<close>

definition spread2 :: "jv \<Rightarrow> jv \<Rightarrow> (string \<times> jv) list" where
  "spread2 a b = foldl (\<lambda>acc (k, v). objSet acc k v) [] (ownProps a @ ownProps b)"

section \<open>validateDocument.js: clone\<close>

text \<open>
  \<open>clone\<close> returns \<open>null\<close> and every non-object as it is and copies dates, arrays and
  objects recursively, an object by \<open>copy[attr] = clone(obj[attr])\<close> for its own
  properties in order; its final \<open>throw\<close> is reached only by an object that is not an
  \<open>instanceof Object\<close>, which no value of \<open>jv\<close> is.
\<close>

definition assignAll :: "(string \<times> 'a) list \<Rightarrow> (string \<times> 'a) list" where
  "assignAll kvs = foldl (\<lambda>copy (attr, v). assign copy attr v) [] kvs"

fun clone :: "jv \<Rightarrow> jv" where
  "clone (JDate t) = JDate t"
| "clone (JArr xs) = JArr (map clone xs)"
| "clone (JObj kvs) = JObj (assignAll (map (\<lambda>(attr, v). (attr, clone v)) kvs))"
| "clone obj = obj"

section \<open>validateDocument.js: getValidationData\<close>

datatype mode = Insert | Update

definition modeName :: "mode \<Rightarrow> string" where
  "modeName m = (case m of Insert \<Rightarrow> ''insert'' | Update \<Rightarrow> ''update'')"

text \<open>
  What a call can throw. The two \<open>MongolError\<close>s of \<open>updateSubSchema\<close> carry a message
  built from the property, the path and the mode; the model keeps these parts apart.
  \<open>TypeError\<close> is what the engine throws on a property read from \<open>null\<close> or
  \<open>undefined\<close> and on a call of something that is not a function. \<open>CompileError\<close> is
  Ajv rejecting a schema; \<open>ObjectsAndArraysOnlyError\<close> is the \<open>Error\<close> at the end of
  \<open>convertElement\<close> in \<open>conversion.js\<close>; \<open>CodecError\<close> is whatever a conversion function
  of the type registry throws.
\<close>

datatype exn =
    TypeError
  | RequiredUnmodifiableError jv string mode
  | AdditionalPropertiesError string
  | CompileError
  | ObjectsAndArraysOnlyError
  | CodecError string

text \<open>
  A result of the recursive schema walk: \<open>None\<close> when the fuel ran out (a \<open>$ref\<close> cycle
  makes the source recurse without end), \<open>Some (Inl e)\<close> when \<open>e\<close> was thrown,
  \<open>Some (Inr v)\<close> when \<open>v\<close> was returned.
\<close>

type_synonym 'a res = "(exn + 'a) option"

definition rbind :: "'a res \<Rightarrow> ('a \<Rightarrow> 'b res) \<Rightarrow> 'b res" where
  "rbind m f = (case m of None \<Rightarrow> None | Some (Inl e) \<Rightarrow> Some (Inl e) | Some (Inr x) \<Rightarrow> f x)"

definition throw :: "exn \<Rightarrow> 'a res" where
  "throw e = Some (Inl e)"

definition return :: "'a \<Rightarrow> 'a res" where
  "return x = Some (Inr x)"

subsection \<open>The \<open>$ref\<close> branch\<close>

text \<open>\<open>s.replace(pat, '')\<close> with a string pattern removes its first occurrence.\<close>

fun removeFirst :: "string \<Rightarrow> string \<Rightarrow> string" where
  "removeFirst pat [] = []"
| "removeFirst pat (c # cs) =
     (if take (length pat) (c # cs) = pat then drop (length pat) (c # cs)
      else c # removeFirst pat cs)"

fun splitOn :: "char \<Rightarrow> string \<Rightarrow> string list" where
  "splitOn d [] = [[]]"
| "splitOn d (c # cs) =
     (if c = d then [] # splitOn d cs
      else (case splitOn d cs of [] \<Rightarrow> [[c]] | w # ws \<Rightarrow> (c # w) # ws))"

text \<open>\<open>.map((p) => { if (ref) ref = ref[p] })\<close> over the segments.\<close>

fun walkRef :: "jv \<Rightarrow> string list \<Rightarrow> jv" where
  "walkRef ref [] = ref"
| "walkRef ref (p # ps) = walkRef (if truthy ref then member ref p else ref) ps"

definition refSegments :: "string \<Rightarrow> string list" where
  "refSegments r = splitOn CHR ''/'' (removeFirst ''#/'' r)"

text \<open>
  A reference stays in the tree when no segment is read from a built-in object: every
  segment names an own property of the value it is read from, or no member of it at
  all, or it is the last segment.
\<close>

fun staysInTree :: "jv \<Rightarrow> string list \<Rightarrow> bool" where
  "staysInTree ref [] = True"
| "staysInTree ref (p # ps) =
     (if truthy ref then
        (if hasOwn ref p \<or> p \<notin> set (inheritedNames ref) then staysInTree (member ref p) ps
         else ps = [])
      else staysInTree ref ps)"

text \<open>
  The first statement of \<open>updateSubSchema\<close>. Reading \<open>schema.$ref\<close> throws on \<open>null\<close> and
  \<open>undefined\<close>; a truthy \<open>$ref\<close> that is not a string has no \<open>replace\<close> method.
\<close>

definition resolveSchemaRef :: "jv \<Rightarrow> jv \<Rightarrow> exn + jv" where
  "resolveSchemaRef refSchema schema =
     (if schema = JNull \<or> schema = JUndef then Inl TypeError
      else if truthy (getProp schema ''$ref'') then
        (case getProp schema ''$ref'' of
           JStr r \<Rightarrow>
             (let ref = walkRef refSchema (refSegments r)
              in Inr (JObj (objDelete (spread2 (clone schema) ref) ''$ref'')))
         | _ \<Rightarrow> Inl TypeError)
      else Inr schema)"

subsection \<open>The required and the unmodifiable names of a mode\<close>

text \<open>\<open>xs.concat(v)\<close>: an array argument is appended element by element.\<close>

definition concatJs :: "jv list \<Rightarrow> jv \<Rightarrow> jv list" where
  "concatJs xs v = (case v of JArr ys \<Rightarrow> xs @ ys | _ \<Rightarrow> xs @ [v])"

text \<open>The local \<open>required\<close>: \<open>None\<close> is \<open>undefined\<close>, the value it keeps when \<open>schema.required\<close> is falsy.\<close>

definition requiredOf :: "mode \<Rightarrow> jv \<Rightarrow> jv list option" where
  "requiredOf m schema =
     (let r = getProp schema ''required''
      in if truthy r then
           Some (case r of
                   JArr xs \<Rightarrow> xs
                 | _ \<Rightarrow>
                   if instanceofObject r then
                     (let req = [];
                          req = (if truthy (getProp r ''upsert'') then concatJs req (getProp r ''upsert'') else req);
                          req = (if truthy (getProp r (modeName m)) then concatJs req (getProp r (modeName m)) else req)
                      in req)
                   else [r])
         else None)"

text \<open>The local \<open>unmodifiableProperties\<close>, computed when \<open>schema.unmodifiableProperties\<close> is truthy.\<close>

definition unmodifiableOf :: "mode \<Rightarrow> jv \<Rightarrow> jv list" where
  "unmodifiableOf m schema =
     (let u = getProp schema ''unmodifiableProperties''
      in if instanceofArray u then concatJs [] u
         else if instanceofObject u then
           (let un = [];
                un = (if truthy (getProp u ''upsert'') then concatJs un (getProp u ''upsert'') else un);
                un = (if truthy (getProp u (modeName m)) then concatJs un (getProp u (modeName m)) else un)
            in un)
         else concatJs [] u)"

text \<open>
  \<open>required.map((r) => { if (unmodifiableProperties.indexOf(r) >= 0) throw ... })\<close>:
  the first required name that is unmodifiable, if there is one.
\<close>

definition firstConflict :: "jv list \<Rightarrow> jv list \<Rightarrow> jv option" where
  "firstConflict required unmodifiable = find (\<lambda>r. includesJs unmodifiable r) required"

text \<open>
  The block \<open>if (schema.properties) { ... }\<close>: it returns the local \<open>properties\<close>, the
  names whose sub-schemas are kept, or throws. With \<open>required\<close> undefined the call
  \<open>required.map\<close> is a \<open>TypeError\<close>.
\<close>

definition propertiesOf :: "mode \<Rightarrow> string \<Rightarrow> jv \<Rightarrow> jv list option \<Rightarrow> exn + string list" where
  "propertiesOf m path schema required =
     (if truthy (getProp schema ''properties'') then
        (let properties = map fst (ownProps (getProp schema ''properties''))
         in if truthy (getProp schema ''unmodifiableProperties'') then
              (let unmodifiableProperties = unmodifiableOf m schema;
                   properties = filter (\<lambda>p. \<not> includesJs unmodifiableProperties (JStr p)) properties
               in case required of
                    None \<Rightarrow> Inl TypeError
                  | Some req \<Rightarrow>
                      (case firstConflict req unmodifiableProperties of
                         Some r \<Rightarrow> Inl (RequiredUnmodifiableError r path m)
                       | None \<Rightarrow>
                           if getProp schema ''additionalProperties'' \<noteq> JBool False
                           then Inl (AdditionalPropertiesError path)
                           else Inr properties))
            else Inr properties)
      else Inr [])"

subsection \<open>Rebuilding the node\<close>

text \<open>
  The loops of the \<open>switch\<close>, over a function \<open>rec\<close> that stands for the recursive call
  \<open>updateSubSchema(sub, path, level + 1)\<close>. (\<open>level\<close> only indents the debug output,
  which \<open>debug = false\<close> turns off; it is left out.)
\<close>

fun deriveProperties ::
  "(jv \<Rightarrow> string \<Rightarrow> jv res) \<Rightarrow> string list \<Rightarrow> string \<Rightarrow> jv \<Rightarrow> string list \<Rightarrow>
   (string \<times> jv) list \<Rightarrow> (string \<times> jv) list res" where
  "deriveProperties rec properties path props [] ret = return ret"
| "deriveProperties rec properties path props (property # rest) ret =
     (if property \<in> set properties then
        rbind (rec (getProp props property) (path @ ''.properties.'' @ property))
          (\<lambda>d. deriveProperties rec properties path props rest (assign ret property d))
      else deriveProperties rec properties path props rest ret)"

fun deriveItems ::
  "(jv \<Rightarrow> string \<Rightarrow> jv res) \<Rightarrow> string \<Rightarrow> jv list \<Rightarrow> nat \<Rightarrow> jv list \<Rightarrow> jv list res" where
  "deriveItems rec path [] i ret = return ret"
| "deriveItems rec path (item # rest) i ret =
     rbind (rec item (path @ ''.items['' @ toStringRadix 10 i @ '']''))
       (\<lambda>d. deriveItems rec path rest (Suc i) (ret @ [d]))"

text \<open>One turn of \<open>for (const key in schema)\<close>.\<close>

definition deriveKey ::
  "(jv \<Rightarrow> string \<Rightarrow> jv res) \<Rightarrow> string list \<Rightarrow> jv list option \<Rightarrow> string \<Rightarrow>
   jv \<Rightarrow> string \<Rightarrow> (string \<times> jv) list \<Rightarrow> (string \<times> jv) list res" where
  "deriveKey rec properties required path schema key ret =
     (if key = ''properties'' then
        rbind (deriveProperties rec properties path (getProp schema ''properties'')
                 (map fst (ownProps (getProp schema ''properties''))) [])
          (\<lambda>ps. return (objSet ret ''properties'' (JObj ps)))
      else if key = ''items'' then
        (case getProp schema ''items'' of
           JArr items \<Rightarrow>
             rbind (deriveItems rec path items 0 []) (\<lambda>ds. return (objSet ret ''items'' (JArr ds)))
         | items \<Rightarrow> rbind (rec items (path @ ''.items'')) (\<lambda>d. return (objSet ret ''items'' d)))
      else if key = ''required'' then
        (case required of
           Some req \<Rightarrow> return (objSet ret ''required'' (JArr req))
         | None \<Rightarrow> return ret)
      else if key = ''definitions'' \<or> key = ''unmodifiableProperties'' then return ret
      else return (assign ret key (clone (getProp schema key))))"

fun deriveKeys ::
  "(jv \<Rightarrow> string \<Rightarrow> jv res) \<Rightarrow> string list \<Rightarrow> jv list option \<Rightarrow> string \<Rightarrow>
   jv \<Rightarrow> string list \<Rightarrow> (string \<times> jv) list \<Rightarrow> (string \<times> jv) list res" where
  "deriveKeys rec properties required path schema [] ret = return ret"
| "deriveKeys rec properties required path schema (key # rest) ret =
     rbind (deriveKey rec properties required path schema key ret)
       (deriveKeys rec properties required path schema rest)"

text \<open>
  \<open>updateSubSchema\<close> itself, with the reference root \<open>refSchema\<close> and the \<open>mode\<close> of the
  enclosing \<open>getSchema\<close> as parameters. The first argument is the fuel.
\<close>

primrec updateSubSchema :: "nat \<Rightarrow> jv \<Rightarrow> mode \<Rightarrow> jv \<Rightarrow> string \<Rightarrow> jv res" where
  "updateSubSchema 0 refSchema m schema path = None"
| "updateSubSchema (Suc n) refSchema m schema path =
     (case resolveSchemaRef refSchema schema of
        Inl e \<Rightarrow> throw e
      | Inr schema' \<Rightarrow>
          (let required = requiredOf m schema'
           in case propertiesOf m path schema' required of
                Inl e \<Rightarrow> throw e
              | Inr properties \<Rightarrow>
                  rbind (deriveKeys (updateSubSchema n refSchema m) properties required path
                           schema' (map fst (ownProps schema')) [])
                    (\<lambda>ret. return (JObj ret))))"

definition getSchema :: "nat \<Rightarrow> jv \<Rightarrow> mode \<Rightarrow> jv res" where
  "getSchema fuel schema m = updateSubSchema fuel schema m schema ''schema''"

text \<open>
  \<open>getValidationData\<close>: both schemas are derived before either is compiled. The
  compiler is Ajv's, a parameter here: \<open>None\<close> when it rejects the schema. The fields
  \<open>insert\<close> and \<open>update\<close> of the result are \<open>insertData\<close> and \<open>updateData\<close> here, their
  fields \<open>schema\<close> and \<open>validator\<close> are \<open>modeSchema\<close> and \<open>modeValidator\<close>.
\<close>

record 'v modeData =
  modeSchema :: jv
  modeValidator :: 'v

record 'v validationData =
  insertData :: "'v modeData"
  updateData :: "'v modeData"

definition compileWith :: "(jv \<Rightarrow> 'v option) \<Rightarrow> jv \<Rightarrow> 'v res" where
  "compileWith compile s = (case compile s of None \<Rightarrow> throw CompileError | Some v \<Rightarrow> return v)"

definition getValidationData :: "nat \<Rightarrow> (jv \<Rightarrow> 'v option) \<Rightarrow> jv \<Rightarrow> 'v validationData res" where
  "getValidationData fuel compile s =
     rbind (getSchema fuel s Insert) (\<lambda>insertSchema.
     rbind (getSchema fuel s Update) (\<lambda>updateSchema.
     rbind (compileWith compile insertSchema) (\<lambda>vi.
     rbind (compileWith compile updateSchema) (\<lambda>vu.
     return \<lparr>insertData = \<lparr>modeSchema = insertSchema, modeValidator = vi\<rparr>,
             updateData = \<lparr>modeSchema = updateSchema, modeValidator = vu\<rparr>\<rparr>))))"
section \<open>Documents\<close>

text \<open>
  A document is a JSON-like value; a leaf may also be a date, a buffer, an instance of a
  class, a wrapper object or a function. \<open>DObj fields\<close> is a plain object (its prototype
  is \<open>Object.prototype\<close>) and \<open>DArr\<close> an array, with their own enumerable properties in
  enumeration order. \<open>DInst c fields\<close> is an instance of a class named \<open>c\<close> whose
  prototype holds nothing but its \<open>constructor\<close>, with its own fields; the driver's classes
  (\<open>ObjectId\<close>, \<open>Int32\<close>, \<open>Long\<close>, \<open>Decimal128\<close>, \<open>Binary\<close>) are seen so, their methods
  being called by the conversion functions only. \<open>DBoxed p\<close> is the wrapper that
  \<open>Object(p)\<close> makes of the number, string or boolean \<open>p\<close>, and \<open>DFunction n\<close> a function
  with the name \<open>n\<close>. Numbers are restricted to the integers and are exact: the rounding
  to a double is not modelled.
\<close>

datatype dv =
    DUndef
  | DNull
  | DBool bool
  | DNum int
  | DStr string
  | DDate int
  | DBuffer "byte list"
  | DBoxed dv
  | DFunction string
  | DInst string "(string \<times> dv) list"
  | DArr "dv list"
  | DObj "(string \<times> dv) list"

fun dtruthy :: "dv \<Rightarrow> bool" where
  "dtruthy DUndef = False"
| "dtruthy DNull = False"
| "dtruthy (DBool b) = b"
| "dtruthy (DNum n) = (n \<noteq> 0)"
| "dtruthy (DStr s) = (s \<noteq> [])"
| "dtruthy _ = True"

text \<open>
  The code tells the kinds of value apart by \<open>x.constructor.name\<close>. Reading \<open>constructor\<close>
  throws on \<open>null\<close> and \<open>undefined\<close>; an object or instance with an own field
  \<open>constructor\<close> gives that field, and every other value the constructor that it
  inherits. \<open>nameOf c\<close> is \<open>c.name\<close> for the value \<open>c\<close> of such an own field: again it
  throws on \<open>null\<close> and \<open>undefined\<close>, and no prototype has a member \<open>name\<close>.
\<close>

fun nameOf :: "dv \<Rightarrow> exn + dv" where
  "nameOf DNull = Inl TypeError"
| "nameOf DUndef = Inl TypeError"
| "nameOf (DObj fs) = Inr (case map_of fs ''name'' of Some v \<Rightarrow> v | None \<Rightarrow> DUndef)"
| "nameOf (DInst c fs) = Inr (case map_of fs ''name'' of Some v \<Rightarrow> v | None \<Rightarrow> DUndef)"
| "nameOf (DFunction n) = Inr (DStr n)"
| "nameOf _ = Inr DUndef"

fun constructorName :: "dv \<Rightarrow> exn + dv" where
  "constructorName DNull = Inl TypeError"
| "constructorName DUndef = Inl TypeError"
| "constructorName (DBool b) = Inr (DStr ''Boolean'')"
| "constructorName (DNum n) = Inr (DStr ''Number'')"
| "constructorName (DStr s) = Inr (DStr ''String'')"
| "constructorName (DDate t) = Inr (DStr ''Date'')"
| "constructorName (DBuffer bs) = Inr (DStr ''Buffer'')"
| "constructorName (DBoxed p) = constructorName p"
| "constructorName (DFunction n) = Inr (DStr ''Function'')"
| "constructorName (DArr xs) = Inr (DStr ''Array'')"
| "constructorName (DInst c fs) =
     (case map_of fs ''constructor'' of Some v \<Rightarrow> nameOf v | None \<Rightarrow> Inr (DStr c))"
| "constructorName (DObj fs) =
     (case map_of fs ''constructor'' of Some v \<Rightarrow> nameOf v | None \<Rightarrow> Inr (DStr ''Object''))"

text \<open>
  What the loops read of a value whose constructor name is \<open>Object\<close> or \<open>Array\<close>: such a
  value is an array, or an object or instance (with an own field \<open>constructor\<close>, or of a
  class of that name). \<open>ownFields\<close> is what \<open>for (v in data)\<close> with the test of
  \<open>hasOwnProperty\<close> goes through, \<open>lengthOf\<close> is \<open>data.length\<close> and \<open>elementAt\<close> is
  \<open>data[i]\<close>; \<open>Object.prototype\<close> has no member \<open>length\<close> and none named by a number.
\<close>

fun ownFields :: "dv \<Rightarrow> (string \<times> dv) list" where
  "ownFields (DObj fs) = fs"
| "ownFields (DInst c fs) = fs"
| "ownFields _ = []"

fun lengthOf :: "dv \<Rightarrow> dv" where
  "lengthOf (DArr xs) = DNum (int (length xs))"
| "lengthOf (DObj fs) = (case map_of fs ''length'' of Some v \<Rightarrow> v | None \<Rightarrow> DUndef)"
| "lengthOf (DInst c fs) = (case map_of fs ''length'' of Some v \<Rightarrow> v | None \<Rightarrow> DUndef)"
| "lengthOf _ = DUndef"

fun elementAt :: "dv \<Rightarrow> nat \<Rightarrow> dv" where
  "elementAt (DArr xs) i = (if i < length xs then xs ! i else DUndef)"
| "elementAt (DObj fs) i = (case map_of fs (toStringRadix 10 i) of Some v \<Rightarrow> v | None \<Rightarrow> DUndef)"
| "elementAt (DInst c fs) i = (case map_of fs (toStringRadix 10 i) of Some v \<Rightarrow> v | None \<Rightarrow> DUndef)"
| "elementAt _ i = DUndef"

subsection \<open>The bound of a loop\<close>

text \<open>
  \<open>i < data.length\<close> turns \<open>data.length\<close> into a number. What the loops need of that
  number is how many \<open>i = 0, 1, 2, ...\<close> are below it: \<open>Some n\<close>, or \<open>None\<close> when every
  \<open>i\<close> that the loop reaches is (the counter of a loop stays at \<open>2^53\<close>). \<open>undefined\<close> and
  what is no number give \<open>NaN\<close>, below which no \<open>i\<close> is.

  A string is read as a numeric literal: white space around it is dropped, the empty
  string is \<open>0\<close>, then come the forms \<open>0x..\<close>, \<open>0o..\<close>, \<open>0b..\<close>, \<open>Infinity\<close> with a sign, and
  a decimal literal with sign, fraction and exponent. \<open>decimalValue\<close> gives the digits
  \<open>d\<close> and the exponent \<open>k\<close> of the value \<open>d * 10^k\<close>.
\<close>

definition isSpace :: "char \<Rightarrow> bool" where
  "isSpace c = (c \<in> set [CHR 0x09, CHR 0x0A, CHR 0x0B, CHR 0x0C, CHR 0x0D, CHR 0x20, CHR 0xA0])"

definition trim :: "string \<Rightarrow> string" where
  "trim s = rev (dropWhile isSpace (rev (dropWhile isSpace s)))"

definition isDigit :: "char \<Rightarrow> bool" where
  "isDigit c = (c \<in> set ''0123456789'')"

definition digitOf :: "char \<Rightarrow> nat option" where
  "digitOf c =
     (let n = (of_char c :: nat)
      in if 48 \<le> n \<and> n \<le> 57 then Some (n - 48)
         else if 97 \<le> n \<and> n \<le> 102 then Some (n - 87)
         else if 65 \<le> n \<and> n \<le> 70 then Some (n - 55)
         else None)"

definition radixValue :: "nat \<Rightarrow> string \<Rightarrow> nat option" where
  "radixValue r ds =
     (if ds \<noteq> [] \<and> list_all (\<lambda>c. case digitOf c of Some d \<Rightarrow> d < r | None \<Rightarrow> False) ds
      then Some (foldl (\<lambda>a c. r * a + (case digitOf c of Some d \<Rightarrow> d | None \<Rightarrow> 0)) 0 ds)
      else None)"

definition decimalValue :: "string \<Rightarrow> (nat \<times> int) option" where
  "decimalValue u =
     (let ip = takeWhile isDigit u;
          r1 = dropWhile isDigit u;
          dot = (r1 \<noteq> [] \<and> hd r1 = CHR ''.'');
          fp = (if dot then takeWhile isDigit (tl r1) else []);
          r2 = (if dot then dropWhile isDigit (tl r1) else r1);
          d = digitsValue (ip @ fp)
      in if ip = [] \<and> fp = [] then None
         else if r2 = [] then Some (d, - int (length fp))
         else if hd r2 = CHR ''e'' \<or> hd r2 = CHR ''E'' then
           (let r3 = tl r2;
                minus = (r3 \<noteq> [] \<and> hd r3 = CHR ''-'');
                ed = (if r3 \<noteq> [] \<and> (hd r3 = CHR ''-'' \<or> hd r3 = CHR ''+'') then tl r3 else r3)
            in if ed \<noteq> [] \<and> list_all isDigit ed
               then Some (d, (if minus then - int (digitsValue ed) else int (digitsValue ed))
                             - int (length fp))
               else None)
         else None)"

definition countBelow :: "int \<Rightarrow> nat option" where
  "countBelow n = (if n \<le> 0 then Some 0 else if 9007199254740992 < n then None else Some (nat n))"

text \<open>The least integer that is not below \<open>d * 10^k\<close>.\<close>

definition ceilScaled :: "nat \<Rightarrow> int \<Rightarrow> int" where
  "ceilScaled d k =
     (if 0 \<le> k then int d * 10 ^ nat k
      else (int d + 10 ^ nat (- k) - 1) div 10 ^ nat (- k))"

definition stringCount :: "string \<Rightarrow> nat option" where
  "stringCount s =
     (let t = trim s
      in if t = [] then Some 0
         else if take 2 t = ''0x'' \<or> take 2 t = ''0X'' then
           (case radixValue 16 (drop 2 t) of Some n \<Rightarrow> countBelow (int n) | None \<Rightarrow> Some 0)
         else if take 2 t = ''0o'' \<or> take 2 t = ''0O'' then
           (case radixValue 8 (drop 2 t) of Some n \<Rightarrow> countBelow (int n) | None \<Rightarrow> Some 0)
         else if take 2 t = ''0b'' \<or> take 2 t = ''0B'' then
           (case radixValue 2 (drop 2 t) of Some n \<Rightarrow> countBelow (int n) | None \<Rightarrow> Some 0)
         else
           (let minus = (hd t = CHR ''-'');
                u = (if hd t = CHR ''-'' \<or> hd t = CHR ''+'' then tl t else t)
            in if u = ''Infinity'' then (if minus then Some 0 else None)
               else case decimalValue u of
                      None \<Rightarrow> Some 0
                    | Some (d, k) \<Rightarrow> if minus then Some 0 else countBelow (ceilScaled d k)))"

text \<open>
  An object is turned into a primitive by its \<open>valueOf\<close> and \<open>toString\<close>. The inherited
  \<open>valueOf\<close> returns the object; an own field \<open>toString\<close> of a document is no function, and
  then the conversion throws a \<open>TypeError\<close>; the inherited \<open>toString\<close> gives
  \<open>[object Object]\<close> for an object or instance, the elements joined by commas for an
  array, the text of the bytes for a buffer (here for bytes below 128, other bytes
  making no number) and the source text for a function. A date is its time value as a
  number, and a text that is no number as a string.
\<close>

fun stringifies :: "dv \<Rightarrow> bool" where
  "stringifies (DObj fs) = (map_of fs ''toString'' = None)"
| "stringifies (DInst c fs) = (map_of fs ''toString'' = None)"
| "stringifies (DArr xs) = list_all stringifies xs"
| "stringifies (DBoxed p) = stringifies p"
| "stringifies _ = True"

definition bytesText :: "byte list \<Rightarrow> string option" where
  "bytesText bs =
     (if list_all (\<lambda>b. unat b < 128) bs then Some (map (\<lambda>b. char_of (unat b)) bs) else None)"

fun loopCount :: "dv \<Rightarrow> exn + nat option"
  and joinedCount :: "dv \<Rightarrow> exn + nat option"
where
  "loopCount DUndef = Inr (Some 0)"
| "loopCount DNull = Inr (Some 0)"
| "loopCount (DBool b) = Inr (Some (if b then 1 else 0))"
| "loopCount (DNum n) = Inr (countBelow n)"
| "loopCount (DStr s) = Inr (stringCount s)"
| "loopCount (DDate t) = Inr (countBelow t)"
| "loopCount (DBuffer bs) = Inr (case bytesText bs of Some s \<Rightarrow> stringCount s | None \<Rightarrow> Some 0)"
| "loopCount (DBoxed p) = loopCount p"
| "loopCount (DFunction n) = Inr (Some 0)"
| "loopCount (DInst c fs) = (if map_of fs ''toString'' = None then Inr (Some 0) else Inl TypeError)"
| "loopCount (DObj fs) = (if map_of fs ''toString'' = None then Inr (Some 0) else Inl TypeError)"
| "loopCount (DArr []) = Inr (Some 0)"
| "loopCount (DArr [x]) = joinedCount x"
| "loopCount (DArr (x # y # zs)) =
     (if list_all stringifies (x # y # zs) then Inr (Some 0) else Inl TypeError)"
| "joinedCount DUndef = Inr (Some 0)"
| "joinedCount DNull = Inr (Some 0)"
| "joinedCount (DBool b) = Inr (Some 0)"
| "joinedCount (DDate t) = Inr (Some 0)"
| "joinedCount (DBoxed p) = joinedCount p"
| "joinedCount x = loopCount x"

text \<open>
  How many turns \<open>for (i = 0; i < data.length; i++)\<close> has, when no turn throws: \<open>None\<close>
  when it has no end. An array has fewer than \<open>2^32\<close> elements.
\<close>

definition loopBound :: "dv \<Rightarrow> exn + nat option" where
  "loopBound data =
     (case data of
        DArr xs \<Rightarrow> Inr (Some (length xs))
      | _ \<Rightarrow> loopCount (lengthOf data))"

text \<open>
  The loops \<open>for (i = 0; i < data.length; i++)\<close> of \<open>conversion.js\<close> read \<open>data[i]\<close> in
  every turn and throw when it is \<open>undefined\<close>. An array is gone through to its end. An
  object has an own property for fewer than \<open>length fs + 1\<close> of the indices below that
  number, so that the loop has ended or thrown before it goes beyond them.
\<close>

definition visitBound :: "dv \<Rightarrow> exn + nat" where
  "visitBound data =
     (case data of
        DArr xs \<Rightarrow> Inr (length xs)
      | DObj fs \<Rightarrow>
          (case loopCount (lengthOf data) of
             Inl e \<Rightarrow> Inl e
           | Inr None \<Rightarrow> Inr (length fs + 1)
           | Inr (Some n) \<Rightarrow> Inr (min n (length fs + 1)))
      | DInst c fs \<Rightarrow>
          (case loopCount (lengthOf data) of
             Inl e \<Rightarrow> Inl e
           | Inr None \<Rightarrow> Inr (length fs + 1)
           | Inr (Some n) \<Rightarrow> Inr (min n (length fs + 1)))
      | _ \<Rightarrow> Inr 0)"

text \<open>A schema value as a document value, to read its constructor name and its length.\<close>

fun toDv :: "jv \<Rightarrow> dv" where
  "toDv JUndef = DUndef"
| "toDv JNull = DNull"
| "toDv (JBool b) = DBool b"
| "toDv (JNum n) = DNum n"
| "toDv (JStr s) = DStr s"
| "toDv (JDate t) = DDate t"
| "toDv (JArr xs) = DArr (map toDv xs)"
| "toDv (JObj kvs) = DObj (map (\<lambda>(k, v). (k, toDv v)) kvs)"

section \<open>conversion.js: convertDocument\<close>

text \<open>
  The \<open>$ref\<close> branch of \<open>convertElement\<close>: the schema is replaced by the node the path
  leads to from \<open>originalSchema\<close>.
\<close>

definition resolveElementRef :: "jv \<Rightarrow> jv \<Rightarrow> exn + jv" where
  "resolveElementRef originalSchema schema =
     (if schema = JNull \<or> schema = JUndef then Inl TypeError
      else if truthy (getProp schema ''$ref'') then
        (case getProp schema ''$ref'' of
           JStr r \<Rightarrow> Inr (walkRef originalSchema (refSegments r))
         | _ \<Rightarrow> Inl TypeError)
      else Inr schema)"

text \<open>
  \<open>schema && schema.properties && schema.properties[v]\<close>, as a condition, and
  \<open>schema.properties[v]\<close>: the field name \<open>v\<close> comes from the document.
\<close>

definition hasPropertySchema :: "jv \<Rightarrow> string \<Rightarrow> bool" where
  "hasPropertySchema schema v =
     (truthy schema \<and> truthy (getProp schema ''properties'')
      \<and> truthy (member (getProp schema ''properties'') v))"

definition propertySchema :: "jv \<Rightarrow> string \<Rightarrow> jv" where
  "propertySchema schema v = member (getProp schema ''properties'') v"

text \<open>
  \<open>i < x\<close> for a counter \<open>i\<close>, and the choice of \<open>schemaI\<close> in the array loop; the variable
  starts \<open>undefined\<close>. \<open>schema.items\<close> is told apart by its constructor name as well: it
  is one schema when that is \<open>Object\<close> and a tuple, read by \<open>length\<close> and index, when it
  is \<open>Array\<close>.
\<close>

definition below :: "nat \<Rightarrow> dv \<Rightarrow> exn + bool" where
  "below i x =
     (case loopCount x of
        Inl e \<Rightarrow> Inl e
      | Inr None \<Rightarrow> Inr True
      | Inr (Some n) \<Rightarrow> Inr (i < n))"

definition itemSchema :: "jv \<Rightarrow> nat \<Rightarrow> exn + jv" where
  "itemSchema schema i =
     (if truthy schema \<and> truthy (getProp schema ''items'') then
        (let items = getProp schema ''items''
         in case constructorName (toDv items) of
              Inl e \<Rightarrow> Inl e
            | Inr name \<Rightarrow>
                if name = DStr ''Object'' then Inr items
                else if name = DStr ''Array'' then
                  (case below i (toDv (getProp items ''length'')) of
                     Inl e \<Rightarrow> Inl e
                   | Inr True \<Rightarrow> Inr (getProp items (toStringRadix 10 i))
                   | Inr False \<Rightarrow> Inr (getProp schema ''additionalItems''))
                else Inr JUndef)
      else Inr JUndef)"

type_synonym convertValue = "dv \<Rightarrow> jv \<Rightarrow> jv \<Rightarrow> exn + dv"

text \<open>
  \<open>convertElement\<close> with its two loops. \<open>convertFields\<close> is the \<open>for (let v in data)\<close>
  loop with the object \<open>ret\<close> built so far and \<open>convertField\<close> its \<open>switch\<close> on the field;
  \<open>convertItems\<close> is the \<open>for (let i = 0; i < data.length; i++)\<close> loop with the index and
  the array built so far and \<open>convertItem\<close> its \<open>switch\<close> on the element, given \<open>schemaI\<close>.
\<close>

function convertElement :: "convertValue \<Rightarrow> jv \<Rightarrow> jv \<Rightarrow> dv \<Rightarrow> exn + dv"
  and convertFields ::
    "convertValue \<Rightarrow> jv \<Rightarrow> jv \<Rightarrow> (string \<times> dv) list \<Rightarrow> (string \<times> dv) list \<Rightarrow> exn + dv"
  and convertField :: "convertValue \<Rightarrow> jv \<Rightarrow> jv \<Rightarrow> string \<Rightarrow> dv \<Rightarrow> exn + dv"
  and convertItems ::
    "convertValue \<Rightarrow> jv \<Rightarrow> jv \<Rightarrow> dv \<Rightarrow> nat \<Rightarrow> dv list \<Rightarrow> exn + dv"
  and convertItem :: "convertValue \<Rightarrow> jv \<Rightarrow> jv \<Rightarrow> dv \<Rightarrow> exn + dv"
where
  "convertElement cv originalSchema schema data =
     (case resolveElementRef originalSchema schema of
        Inl e \<Rightarrow> Inl e
      | Inr schema' \<Rightarrow>
          (case constructorName data of
             Inl e \<Rightarrow> Inl e
           | Inr name \<Rightarrow>
               if name = DStr ''Object'' then
                 convertFields cv originalSchema schema' (ownFields data) []
               else if name = DStr ''Array'' then
                 convertItems cv originalSchema schema' data 0 []
               else Inl ObjectsAndArraysOnlyError))"
| "convertFields cv originalSchema schema [] ret = Inr (DObj ret)"
| "convertFields cv originalSchema schema ((v, x) # rest) ret =
     (case convertField cv originalSchema schema v x of
        Inl e \<Rightarrow> Inl e
      | Inr y \<Rightarrow> convertFields cv originalSchema schema rest (assign ret v y))"
| "convertField cv originalSchema schema v x =
     (case constructorName x of
        Inl e \<Rightarrow> Inl e
      | Inr name \<Rightarrow>
          if name = DStr ''Object'' \<or> name = DStr ''Array'' then
            convertElement cv originalSchema
              (if hasPropertySchema schema v then propertySchema schema v else JNull) x
          else
            (let encoding = (if hasPropertySchema schema v
                             then getProp (propertySchema schema v) ''encoding'' else JStr []);
                 mongoType = (if hasPropertySchema schema v
                              then getProp (propertySchema schema v) ''mongoType'' else JStr [])
             in cv x mongoType encoding))"
| "convertItems cv originalSchema schema data i ret =
     (case visitBound data of
        Inl e \<Rightarrow> Inl e
      | Inr n \<Rightarrow>
          if i < n then
            (case itemSchema schema i of
               Inl e \<Rightarrow> Inl e
             | Inr schemaI \<Rightarrow>
                 (case convertItem cv originalSchema schemaI (elementAt data i) of
                    Inl e \<Rightarrow> Inl e
                  | Inr y \<Rightarrow> convertItems cv originalSchema schema data (Suc i) (ret @ [y])))
          else Inr (DArr ret))"
| "convertItem cv originalSchema schemaI x =
     (case constructorName x of
        Inl e \<Rightarrow> Inl e
      | Inr name \<Rightarrow>
          if name = DStr ''Object'' \<or> name = DStr ''Array'' then
            convertElement cv originalSchema schemaI x
          else
            (let encoding = (if truthy schemaI then getProp schemaI ''encoding'' else JStr []);
                 mongoType = (if truthy schemaI then getProp schemaI ''mongoType'' else JStr [])
             in cv x mongoType encoding))"
  by pat_completeness auto

termination
proof -
  have fields: "2 * size_list (size_prod (\<lambda>k. 0) size) (ownFields d) < Suc (2 * size d)" for d
    by (cases d) simp_all
  have val: "size v < Suc (size_list (size_prod (\<lambda>k. 0) size) fs)"
    if "map_of fs k = Some v" for fs :: "(string \<times> dv) list" and k v
    using that by (induction fs) (auto split: if_splits)
  have item: "size (xs ! i) < Suc (size_list size xs)" if "i < length xs" for xs :: "dv list" and i
    using size_list_estimation'[of "xs ! i" xs "size (xs ! i)" size] that by simp
  have elem: "Suc (2 * size (elementAt d i)) < 2 * size d" if "visitBound d = Inr b" "i < b" for d i b
  proof (cases d)
    case (DArr xs)
    then show ?thesis using that item[of i xs] by (simp add: visitBound_def)
  next
    case (DObj fs)
    then show ?thesis using val[of fs "toStringRadix 10 i"] by (auto split: option.splits)
  next
    case (DInst c fs)
    then show ?thesis using val[of fs "toStringRadix 10 i"] by (auto split: option.splits)
  qed (use that in \<open>simp_all add: visitBound_def\<close>)
  show ?thesis
    apply (relation "inv_image (less_than <*lex*> less_than) (\<lambda>a. case a of
          Inl (Inl (cv, root, s, d)) \<Rightarrow> (2 * size d + 1, 0)
        | Inl (Inr (cv, root, s, fs, ret)) \<Rightarrow> (2 * size_list (size_prod (\<lambda>k. 0) size) fs, 0)
        | Inr (Inl (cv, root, s, v, x)) \<Rightarrow> (2 * size x + 1, 1)
        | Inr (Inr (Inl (cv, root, s, d, i, ret))) \<Rightarrow>
            (2 * size d, case visitBound d of Inr n \<Rightarrow> n - i | Inl e \<Rightarrow> 0)
        | Inr (Inr (Inr (cv, root, s, x))) \<Rightarrow> (2 * size x + 1, 1))")
    using fields elem by auto
qed

text \<open>
  The top level of \<open>convertDocument\<close>: a value whose constructor name is \<open>Array\<close> is gone
  through element by element, each element being converted against the whole schema.
\<close>

function convertEach :: "convertValue \<Rightarrow> jv \<Rightarrow> dv \<Rightarrow> nat \<Rightarrow> dv list \<Rightarrow> exn + dv" where
  "convertEach cv schema data i ret =
     (case visitBound data of
        Inl e \<Rightarrow> Inl e
      | Inr n \<Rightarrow>
          if i < n then
            (case convertElement cv schema schema (elementAt data i) of
               Inl e \<Rightarrow> Inl e
             | Inr y \<Rightarrow> convertEach cv schema data (Suc i) (ret @ [y]))
          else Inr (DArr ret))"
  by pat_completeness auto
termination
  by (relation "measure (\<lambda>(cv, schema, data, i, ret).
        case visitBound data of Inr n \<Rightarrow> n - i | Inl e \<Rightarrow> 0)") auto

definition convertDocument :: "dv \<Rightarrow> jv \<Rightarrow> convertValue \<Rightarrow> exn + dv" where
  "convertDocument data schema cv =
     (if \<not> truthy schema then Inr data
      else if \<not> dtruthy data then Inr data
      else case constructorName data of
             Inl e \<Rightarrow> Inl e
           | Inr name \<Rightarrow>
               if name = DStr ''Array'' then convertEach cv schema data 0 []
               else convertElement cv schema schema data)"

section \<open>types.js: the type registry\<close>

text \<open>
  The module keeps two tables, \<open>toDbFunctions\<close> and \<open>fromDbFunctions\<close>, objects made from
  \<open>{}\<close> whose own properties are the conversion functions stored under the type names; a
  conversion function takes the value and the encoding and may throw. The tables are the
  state \<open>addType\<close> updates, by \<open>table[type] = f\<close>. (For the type name \<open>__proto__\<close> this
  stores nothing and makes \<open>f\<close> the prototype of the table, from which the table then
  inherits; the model keeps the first and not the second.)
\<close>

type_synonym conversion = "dv \<Rightarrow> jv \<Rightarrow> exn + dv"

record registry =
  toDbFunctions :: "(string \<times> conversion) list"
  fromDbFunctions :: "(string \<times> conversion) list"

definition addType :: "string \<Rightarrow> conversion \<Rightarrow> conversion \<Rightarrow> registry \<Rightarrow> registry" where
  "addType type toDb fromDb reg =
     reg\<lparr>toDbFunctions := assign (toDbFunctions reg) type toDb,
         fromDbFunctions := assign (fromDbFunctions reg) type fromDb\<rparr>"

text \<open>
  \<open>table[type]\<close> and \<open>table.hasOwnProperty(value)\<close> turn their argument into a property
  key, its string form. An object or instance has the string form \<open>[object Object]\<close>,
  and throws a \<open>TypeError\<close> when it has an own field \<open>toString\<close>, which is no function; an
  array joins the string forms of its elements, \<open>null\<close> and \<open>undefined\<close> being empty there.
  \<open>None\<close> stands for a string form that the model does not build (of a date, which
  depends on the time zone, of a number from \<open>10^21\<close> on, of a function, of a buffer with a
  byte from 128 on); it is taken to be the name of no property.
\<close>

definition showInt :: "int \<Rightarrow> string" where
  "showInt n = (if n < 0 then CHR ''-'' # toStringRadix 10 (nat (- n)) else toStringRadix 10 (nat n))"

fun propertyKey :: "dv \<Rightarrow> exn + string option"
  and elementKey :: "dv \<Rightarrow> exn + string option"
  and joinKeys :: "dv list \<Rightarrow> exn + string option"
where
  "propertyKey DUndef = Inr (Some ''undefined'')"
| "propertyKey DNull = Inr (Some ''null'')"
| "propertyKey (DBool b) = Inr (Some (if b then ''true'' else ''false''))"
| "propertyKey (DNum n) = Inr (if \<bar>n\<bar> < 10 ^ 21 then Some (showInt n) else None)"
| "propertyKey (DStr s) = Inr (Some s)"
| "propertyKey (DDate t) = Inr None"
| "propertyKey (DBuffer bs) = Inr (bytesText bs)"
| "propertyKey (DBoxed p) = propertyKey p"
| "propertyKey (DFunction n) = Inr None"
| "propertyKey (DInst c fs) =
     (if map_of fs ''toString'' = None then Inr (Some ''[object Object]'') else Inl TypeError)"
| "propertyKey (DObj fs) =
     (if map_of fs ''toString'' = None then Inr (Some ''[object Object]'') else Inl TypeError)"
| "propertyKey (DArr xs) = joinKeys xs"
| "elementKey DUndef = Inr (Some [])"
| "elementKey DNull = Inr (Some [])"
| "elementKey x = propertyKey x"
| "joinKeys [] = Inr (Some [])"
| "joinKeys [x] = elementKey x"
| "joinKeys (x # y # zs) =
     (case elementKey x of
        Inl e \<Rightarrow> Inl e
      | Inr a \<Rightarrow>
          (case joinKeys (y # zs) of
             Inl e \<Rightarrow> Inl e
           | Inr b \<Rightarrow>
               Inr (case a of
                      None \<Rightarrow> None
                    | Some s \<Rightarrow> (case b of None \<Rightarrow> None | Some t \<Rightarrow> Some (s @ '','' @ t)))))"

text \<open>
  A table inherits the methods of \<open>Object.prototype\<close>, which \<open>table[type]\<close> finds under
  their names when the table has no own property of the name, and which are then called
  with the table as \<open>this\<close>, the value and the encoding: \<open>constructor\<close> is \<open>Object\<close>, which
  returns an object as it is, a wrapper of a number, string or boolean, and a new object
  for \<open>null\<close> and \<open>undefined\<close>; \<open>toString\<close> and \<open>toLocaleString\<close> return \<open>[object Object]\<close>;
  \<open>valueOf\<close> returns the table, an object whose fields are the stored functions;
  \<open>hasOwnProperty\<close> and \<open>propertyIsEnumerable\<close> tell whether the value names an own
  property of the table; \<open>isPrototypeOf\<close> is false of every value; \<open>__defineGetter__\<close> and
  \<open>__defineSetter__\<close> throw a \<open>TypeError\<close>, the encoding being no function;
  \<open>__lookupGetter__\<close> and \<open>__lookupSetter__\<close> return \<open>undefined\<close> but for \<open>__proto__\<close>, where
  they return the accessor functions. The inherited \<open>__proto__\<close> is an object and no
  function. (The stored functions appear with the empty name, as anonymous functions
  have it.)
\<close>

definition toObject :: "dv \<Rightarrow> dv" where
  "toObject v =
     (case v of
        DUndef \<Rightarrow> DObj []
      | DNull \<Rightarrow> DObj []
      | DBool b \<Rightarrow> DBoxed v
      | DNum n \<Rightarrow> DBoxed v
      | DStr s \<Rightarrow> DBoxed v
      | _ \<Rightarrow> v)"

definition ownsKey :: "(string \<times> conversion) list \<Rightarrow> conversion" where
  "ownsKey table value encoding =
     (case propertyKey value of
        Inl e \<Rightarrow> Inl e
      | Inr None \<Rightarrow> Inr (DBool False)
      | Inr (Some k) \<Rightarrow> Inr (DBool (map_of table k \<noteq> None)))"

definition lookupAccessor :: "string \<Rightarrow> conversion" where
  "lookupAccessor n value encoding =
     (case propertyKey value of
        Inl e \<Rightarrow> Inl e
      | Inr None \<Rightarrow> Inr DUndef
      | Inr (Some k) \<Rightarrow> Inr (if k = ''__proto__'' then DFunction n else DUndef))"

definition objectPrototypeMethod :: "(string \<times> conversion) list \<Rightarrow> string \<Rightarrow> conversion option" where
  "objectPrototypeMethod table k =
     (if k = ''constructor'' then Some (\<lambda>value encoding. Inr (toObject value))
      else if k = ''toString'' \<or> k = ''toLocaleString'' then
        Some (\<lambda>value encoding. Inr (DStr ''[object Object]''))
      else if k = ''valueOf'' then
        Some (\<lambda>value encoding. Inr (DObj (map (\<lambda>(type, f). (type, DFunction [])) table)))
      else if k = ''hasOwnProperty'' \<or> k = ''propertyIsEnumerable'' then Some (ownsKey table)
      else if k = ''isPrototypeOf'' then Some (\<lambda>value encoding. Inr (DBool False))
      else if k = ''__defineGetter__'' \<or> k = ''__defineSetter__'' then
        Some (\<lambda>value encoding. Inl TypeError)
      else if k = ''__lookupGetter__'' then Some (lookupAccessor ''get __proto__'')
      else if k = ''__lookupSetter__'' then Some (lookupAccessor ''set __proto__'')
      else None)"

text \<open>
  \<open>table[type]\<close> when it is a function: \<open>typeof table[type] === 'function'\<close> is the test
  of \<open>valueToDbFormat\<close> and \<open>dbFormatToValue\<close>, which return the value as it is otherwise.
\<close>

definition registered :: "(string \<times> conversion) list \<Rightarrow> jv \<Rightarrow> exn + conversion option" where
  "registered table type =
     (case propertyKey (toDv type) of
        Inl e \<Rightarrow> Inl e
      | Inr None \<Rightarrow> Inr None
      | Inr (Some k) \<Rightarrow>
          Inr (case map_of table k of
                 Some f \<Rightarrow> Some f
               | None \<Rightarrow> objectPrototypeMethod table k))"

definition valueToDbFormat :: "registry \<Rightarrow> dv \<Rightarrow> jv \<Rightarrow> jv \<Rightarrow> exn + dv" where
  "valueToDbFormat reg value type encoding =
     (case registered (toDbFunctions reg) type of
        Inl e \<Rightarrow> Inl e
      | Inr (Some f) \<Rightarrow> f value encoding
      | Inr None \<Rightarrow> Inr value)"

definition dbFormatToValue :: "registry \<Rightarrow> dv \<Rightarrow> jv \<Rightarrow> jv \<Rightarrow> exn + dv" where
  "dbFormatToValue reg value type encoding =
     (case registered (fromDbFunctions reg) type of
        Inl e \<Rightarrow> Inl e
      | Inr (Some f) \<Rightarrow> f value encoding
      | Inr None \<Rightarrow> Inr value)"

section \<open>conversion.js: the two directions\<close>

definition documentToDbFormat :: "registry \<Rightarrow> dv \<Rightarrow> jv \<Rightarrow> exn + dv" where
  "documentToDbFormat reg data schema = convertDocument data schema (valueToDbFormat reg)"

definition dbFormatToDocument :: "registry \<Rightarrow> dv \<Rightarrow> jv \<Rightarrow> exn + dv" where
  "dbFormatToDocument reg data schema = convertDocument data schema (dbFormatToValue reg)"

section \<open>validateDocument.js: validateDocument\<close>

text \<open>
  A compiled validator is a function that accepts a document or rejects it and leaves
  the violations in its \<open>errors\<close> field: \<open>None\<close> for accepted, \<open>Some errors\<close> for rejected.
  It is handed the document itself and not a copy, so that it can change it (as Ajv's
  validators do under some options): the second component of its result is its argument
  after the call. A primitive value cannot be changed. The argument \<open>validator\<close> of
  \<open>validateDocument\<close> may be absent (falsy). A \<open>MongolError\<close> built from an object copies
  its fields: \<open>error\<close>, \<open>document\<close> and, for an element of an array, \<open>index\<close>.
\<close>

datatype 'e validationExn =
    ValidationTypeError
  | MongolError 'e dv "nat option"

type_synonym 'e validator = "dv \<Rightarrow> 'e option \<times> dv"

fun isPrimitive :: "dv \<Rightarrow> bool" where
  "isPrimitive DUndef = True"
| "isPrimitive DNull = True"
| "isPrimitive (DBool b) = True"
| "isPrimitive (DNum n) = True"
| "isPrimitive (DStr s) = True"
| "isPrimitive _ = False"

definition afterCall :: "dv \<Rightarrow> dv \<Rightarrow> dv" where
  "afterCall x x' = (if isPrimitive x then x else x')"

text \<open>The document after its element \<open>data[i]\<close>, if it has one, has become \<open>x\<close>.\<close>

fun updateField :: "string \<Rightarrow> 'a \<Rightarrow> (string \<times> 'a) list \<Rightarrow> (string \<times> 'a) list" where
  "updateField k x [] = []"
| "updateField k x ((k', v) # rest) =
     (if k' = k then (k', x) # rest else (k', v) # updateField k x rest)"

fun setElement :: "dv \<Rightarrow> nat \<Rightarrow> dv \<Rightarrow> dv" where
  "setElement (DArr xs) i x = (if i < length xs then DArr (xs[i := x]) else DArr xs)"
| "setElement (DObj fs) i x = DObj (updateField (toStringRadix 10 i) x fs)"
| "setElement (DInst c fs) i x = DInst c (updateField (toStringRadix 10 i) x fs)"
| "setElement d i x = d"

text \<open>
  The loop \<open>for (let i = 0; i < data.length; i++)\<close> with a validator, for a bound \<open>n\<close>
  that is a number: the result of the call and the document after it.
\<close>

function validateEach ::
  "'e validator \<Rightarrow> dv \<Rightarrow> nat \<Rightarrow> nat \<Rightarrow> ('e validationExn + dv) \<times> dv" where
  "validateEach f data n i =
     (if i < n then
        (case f (elementAt data i) of
           (Some errors, x) \<Rightarrow>
             (Inl (MongolError errors (afterCall (elementAt data i) x) (Some i)),
              setElement data i (afterCall (elementAt data i) x))
         | (None, x) \<Rightarrow>
             validateEach f (setElement data i (afterCall (elementAt data i) x)) n (Suc i))
      else (Inr (DArr []), data))"
  by pat_completeness auto
termination
  by (relation "measure (\<lambda>(f, data, n, i). n - i)") auto

text \<open>
  An index from which on a value has no element: beyond it \<open>data[i]\<close> is \<open>undefined\<close>.
\<close>

definition keyIndex :: "string \<Rightarrow> nat option" where
  "keyIndex k =
     (if k \<noteq> [] \<and> list_all isDigit k \<and> (k = ''0'' \<or> hd k \<noteq> CHR ''0'')
      then Some (digitsValue k) else None)"

definition indexBound :: "dv \<Rightarrow> nat" where
  "indexBound data =
     (case data of
        DArr xs \<Rightarrow> length xs
      | _ \<Rightarrow> foldl (\<lambda>b (k, v). case keyIndex k of Some i \<Rightarrow> max b (Suc i) | None \<Rightarrow> b) 0
             (ownFields data))"

text \<open>
  \<open>validateDocument\<close>. The result is \<open>None\<close> when the call does not return: the loop over
  a value whose \<open>length\<close> is above every counter goes on for ever unless the validator
  rejects an element, and beyond \<open>indexBound\<close> every element is \<open>undefined\<close>, on which the
  validator always decides the same. Otherwise the result is what is thrown or returned
  (\<open>ret\<close>, the empty array, for an array, and \<open>undefined\<close> for a single document) and the
  document after the call.
\<close>

definition validateDocument ::
  "dv \<Rightarrow> 'e validator option \<Rightarrow> (('e validationExn + dv) \<times> dv) option" where
  "validateDocument data validator =
     (case constructorName data of
        Inl e \<Rightarrow> Some (Inl ValidationTypeError, data)
      | Inr name \<Rightarrow>
          if name = DStr ''Array'' then
            (case loopBound data of
               Inl e \<Rightarrow> Some (Inl ValidationTypeError, data)
             | Inr count \<Rightarrow>
                 (case validator of
                    None \<Rightarrow> (case count of None \<Rightarrow> None | Some n \<Rightarrow> Some (Inr (DArr []), data))
                  | Some f \<Rightarrow>
                      (case count of
                         Some n \<Rightarrow> Some (validateEach f data n 0)
                       | None \<Rightarrow>
                           (case validateEach f data (Suc (indexBound data)) 0 of
                              (Inl e, data') \<Rightarrow> Some (Inl e, data')
                            | (Inr r, data') \<Rightarrow> None))))
          else
            (case validator of
               None \<Rightarrow> Some (Inr DUndef, data)
             | Some f \<Rightarrow>
                 (case f data of
                    (Some errors, d) \<Rightarrow>
                      Some (Inl (MongolError errors (afterCall data d) None), afterCall data d)
                  | (None, d) \<Rightarrow> Some (Inr DUndef, afterCall data d))))"

section \<open>The specification's reading of a required or unmodifiable declaration\<close>

text \<open>
  The specification describes a declaration as a single property name, an ordered list
  of names, or a map whose keys \<open>upsert\<close>, \<open>insert\<close> and \<open>update\<close> each give a name or a
  list of names, and its normal form for a mode as the names of the \<open>upsert\<close> branch
  followed by the names of the branch of the mode. These definitions follow that
  description, to be compared with \<open>requiredOf\<close> and \<open>unmodifiableOf\<close>, which follow the code.
\<close>

fun isName :: "jv \<Rightarrow> bool" where
  "isName (JStr a) = (a \<noteq> [])"
| "isName _ = False"

fun isNames :: "jv \<Rightarrow> bool" where
  "isNames (JArr xs) = list_all isName xs"
| "isNames v = isName v"

fun isBranch :: "jv \<Rightarrow> bool" where
  "isBranch JUndef = True"
| "isBranch v = isNames v"

fun isDeclaration :: "jv \<Rightarrow> bool" where
  "isDeclaration (JObj r) =
     (isBranch (getProp (JObj r) ''upsert'') \<and> isBranch (getProp (JObj r) ''insert'')
      \<and> isBranch (getProp (JObj r) ''update''))"
| "isDeclaration v = isNames v"

fun specNames :: "jv \<Rightarrow> jv list" where
  "specNames (JArr xs) = xs"
| "specNames JUndef = []"
| "specNames v = [v]"

fun specNormalForm :: "mode \<Rightarrow> jv \<Rightarrow> jv list" where
  "specNormalForm m (JObj r) =
     specNames (getProp (JObj r) ''upsert'') @ specNames (getProp (JObj r) (modeName m))"
| "specNormalForm m v = specNames v"

section \<open>Example schemas, documents and functions\<close>



text \<open>
  \<open>{type: 'object', properties: {_id: {type: 'string'}, a: {type: 'number'}},
     required: {upsert: '_id'}, unmodifiableProperties: '_id', additionalProperties: false}\<close>
\<close>

definition conflictSchema :: jv where
  "conflictSchema =
     JObj [(''type'', JStr ''object''),
           (''properties'',
            JObj [(''_id'', JObj [(''type'', JStr ''string'')]),
                  (''a'', JObj [(''type'', JStr ''number'')])]),
           (''required'', JObj [(''upsert'', JStr ''_id'')]),
           (''unmodifiableProperties'', JStr ''_id''),
           (''additionalProperties'', JBool False)]"

text \<open>\<open>{type: 'object', required: 'a', unmodifiableProperties: 'a', additionalProperties: false}\<close>\<close>

definition conflictWithoutPropertiesSchema :: jv where
  "conflictWithoutPropertiesSchema =
     JObj [(''type'', JStr ''object''),
           (''required'', JStr ''a''),
           (''unmodifiableProperties'', JStr ''a''),
           (''additionalProperties'', JBool False)]"

text \<open>
  \<open>{type: 'object', properties: {_id: {type: 'string'}, a: {type: 'number'}},
     required: 'a', unmodifiableProperties: '_id'}\<close>
\<close>

definition openSchema :: jv where
  "openSchema =
     JObj [(''type'', JStr ''object''),
           (''properties'',
            JObj [(''_id'', JObj [(''type'', JStr ''string'')]),
                  (''a'', JObj [(''type'', JStr ''number'')])]),
           (''required'', JStr ''a''),
           (''unmodifiableProperties'', JStr ''_id'')]"

text \<open>\<open>{type: 'object', unmodifiableProperties: 'a'}\<close>\<close>

definition openWithoutPropertiesSchema :: jv where
  "openWithoutPropertiesSchema =
     JObj [(''type'', JStr ''object''), (''unmodifiableProperties'', JStr ''a'')]"

text \<open>
  \<open>{type: 'object', properties: {_id: {type: 'string'}, a: {type: 'number'}},
     unmodifiableProperties: '_id', additionalProperties: false}\<close>
\<close>

definition unmodifiableOnlySchema :: jv where
  "unmodifiableOnlySchema =
     JObj [(''type'', JStr ''object''),
           (''properties'',
            JObj [(''_id'', JObj [(''type'', JStr ''string'')]),
                  (''a'', JObj [(''type'', JStr ''number'')])]),
           (''unmodifiableProperties'', JStr ''_id''),
           (''additionalProperties'', JBool False)]"

text \<open>
  \<open>{definitions: {address: {type: 'string', maxLength: 80}},
     properties: {home: {$ref: '#/definitions/address', type: 'number', title: 'Home'}}}\<close>
\<close>

definition addressNode :: jv where
  "addressNode = JObj [(''type'', JStr ''string''), (''maxLength'', JNum 80)]"

definition homeNode :: jv where
  "homeNode =
     JObj [(''$ref'', JStr ''#/definitions/address''), (''type'', JStr ''number''),
           (''title'', JStr ''Home'')]"

definition refSchemaExample :: jv where
  "refSchemaExample =
     JObj [(''definitions'', JObj [(''address'', addressNode)]),
           (''properties'', JObj [(''home'', homeNode)])]"

text \<open>
  The specification's resolution of a reference: the keys of the resolved node are
  merged under the current node, whose own keys win, and \<open>$ref\<close> is dropped.
\<close>

definition specMergeRef :: "jv \<Rightarrow> jv \<Rightarrow> jv" where
  "specMergeRef resolved node = JObj (objDelete (spread2 resolved node) ''$ref'')"


text \<open>\<open>{items: [{mongoType: 'int32'}, {mongoType: 'int64'}], additionalItems: {mongoType: 'date'}}\<close>\<close>

definition tupleSchema :: jv where
  "tupleSchema =
     JObj [(''items'', JArr [JObj [(''mongoType'', JStr ''int32'')], JObj [(''mongoType'', JStr ''int64'')]]),
           (''additionalItems'', JObj [(''mongoType'', JStr ''date'')])]"

text \<open>
  \<open>{type: 'object', properties: {meta: {type: 'object'}, n: {type: 'string', mongoType: 'int32'}}}\<close>
  and the document \<open>{meta: {info: {a: 1}}, n: '42'}\<close>, which is valid against it.
\<close>

definition nestedSchema :: jv where
  "nestedSchema =
     JObj [(''type'', JStr ''object''),
           (''properties'',
            JObj [(''meta'', JObj [(''type'', JStr ''object'')]),
                  (''n'', JObj [(''type'', JStr ''string''), (''mongoType'', JStr ''int32'')])])]"

definition nestedDocument :: dv where
  "nestedDocument =
     DObj [(''meta'', DObj [(''info'', DObj [(''a'', DNum 1)])]), (''n'', DStr ''42'')]"

text \<open>A validator that rejects numbers, and a \<open>Decimal128\<close> holding \<open>0x1a2b\<close>.\<close>

definition rejectNumbers :: "string validator" where
  "rejectNumbers d = (case d of DNum n \<Rightarrow> Some ''should be object'' | _ \<Rightarrow> None, d)"

definition bytes1a2b :: "byte list" where
  "bytes1a2b = [0x2b, 0x1a, 0, 0, 0, 0, 0, 0, 0, 0, 0, 0, 0, 0, 0, 0]"

text \<open>\<open>{type: 'object', properties: {a: {type: 'number'}}, required: 'a', unmodifiableProperties: 'a'}\<close>\<close>

definition openConflictSchema :: jv where
  "openConflictSchema =
     JObj [(''type'', JStr ''object''),
           (''properties'', JObj [(''a'', JObj [(''type'', JStr ''number'')])]),
           (''required'', JStr ''a''),
           (''unmodifiableProperties'', JStr ''a'')]"

text \<open>
  \<open>{type: 'object', properties: {a: {type: 'number'}, b: {type: 'number'}},
     required: ['a', 'b'], unmodifiableProperties: ['b', 'a'], additionalProperties: false}\<close>
\<close>

definition twoConflictsSchema :: jv where
  "twoConflictsSchema =
     JObj [(''type'', JStr ''object''),
           (''properties'',
            JObj [(''a'', JObj [(''type'', JStr ''number'')]),
                  (''b'', JObj [(''type'', JStr ''number'')])]),
           (''required'', JArr [JStr ''a'', JStr ''b'']),
           (''unmodifiableProperties'', JArr [JStr ''b'', JStr ''a'']),
           (''additionalProperties'', JBool False)]"

text \<open>
  \<open>{type: 'object', properties: {a: {type: 'number'}}, required: 'a',
     unmodifiableProperties: 'a', additionalProperties: false}\<close>, a node with \<open>a\<close> required
  and unmodifiable, as the sub-schema of a property and as a member of \<open>anyOf\<close>:
  \<open>{type: 'object', properties: {name: {type: 'string'}, child: ...}}\<close> and
  \<open>{type: 'object', anyOf: [...]}\<close>.
\<close>

definition conflictChild :: jv where
  "conflictChild =
     JObj [(''type'', JStr ''object''),
           (''properties'', JObj [(''a'', JObj [(''type'', JStr ''number'')])]),
           (''required'', JStr ''a''),
           (''unmodifiableProperties'', JStr ''a''),
           (''additionalProperties'', JBool False)]"

definition nestedConflictSchema :: jv where
  "nestedConflictSchema =
     JObj [(''type'', JStr ''object''),
           (''properties'',
            JObj [(''name'', JObj [(''type'', JStr ''string'')]), (''child'', conflictChild)])]"

definition anyOfConflictSchema :: jv where
  "anyOfConflictSchema = JObj [(''type'', JStr ''object''), (''anyOf'', JArr [conflictChild])]"

text \<open>
  \<open>{type: 'object', properties: {a: {type: 'number'}}, required: 'b',
     unmodifiableProperties: 'a'}\<close>, a node with unmodifiable properties that does not set
  \<open>additionalProperties\<close>, as the second member of a tuple and as a member of \<open>anyOf\<close>:
  \<open>{type: 'object', properties: {list: {type: 'array', items: [{type: 'string'}, ...]}}}\<close>
  and \<open>{type: 'object', anyOf: [...]}\<close>.
\<close>

definition openChild :: jv where
  "openChild =
     JObj [(''type'', JStr ''object''),
           (''properties'', JObj [(''a'', JObj [(''type'', JStr ''number'')])]),
           (''required'', JStr ''b''),
           (''unmodifiableProperties'', JStr ''a'')]"

definition listNode :: jv where
  "listNode =
     JObj [(''type'', JStr ''array''),
           (''items'', JArr [JObj [(''type'', JStr ''string'')], openChild])]"

definition nestedOpenSchema :: jv where
  "nestedOpenSchema =
     JObj [(''type'', JStr ''object''), (''properties'', JObj [(''list'', listNode)])]"

definition anyOfOpenSchema :: jv where
  "anyOfOpenSchema = JObj [(''type'', JStr ''object''), (''anyOf'', JArr [openChild])]"


definition rejectAll :: "string validator" where
  "rejectAll d = (Some ''invalid'', d)"

section \<open>The nodes that a derivation visits\<close>

text \<open>
  \<open>visits root m fuel n node path\<close>: in the run of \<open>getSchema\<close> on \<open>root\<close> for mode \<open>m\<close>
  with \<open>fuel\<close>, \<open>updateSubSchema\<close> is called on \<open>node\<close> with the path \<open>path\<close> (and the fuel
  \<open>n\<close>). The root is visited at \<open>schema\<close>. When a visited node has passed its checks and
  the loop over its keys has come to \<open>properties\<close> without an error, the sub-schema of
  each property that is kept is visited at \<open>path.properties.name\<close>, in the order of the
  properties and as long as the sub-schemas before it were derived without an error;
  likewise the members of a tuple \<open>items\<close> at \<open>path.items[i]\<close> and a single \<open>items\<close> at
  \<open>path.items\<close>. Nothing else is visited: under every other key the node is copied.
\<close>

inductive visits :: "jv \<Rightarrow> mode \<Rightarrow> nat \<Rightarrow> nat \<Rightarrow> jv \<Rightarrow> string \<Rightarrow> bool"
  for root :: jv and m :: mode and fuel :: nat
where
  visits_root: "visits root m fuel fuel root ''schema''"
| visits_property:
    "visits root m fuel (Suc n) node path \<Longrightarrow>
     resolveSchemaRef root node = Inr schema \<Longrightarrow>
     propertiesOf m path schema (requiredOf m schema) = Inr properties \<Longrightarrow>
     map fst (ownProps schema) = before @ ''properties'' # after \<Longrightarrow>
     deriveKeys (updateSubSchema n root m) properties (requiredOf m schema) path schema before []
       = Some (Inr ret) \<Longrightarrow>
     map fst (ownProps (getProp schema ''properties'')) = earlier @ property # later \<Longrightarrow>
     property \<in> set properties \<Longrightarrow>
     deriveProperties (updateSubSchema n root m) properties path (getProp schema ''properties'')
       earlier [] = Some (Inr ps) \<Longrightarrow>
     visits root m fuel n (getProp (getProp schema ''properties'') property)
       (path @ ''.properties.'' @ property)"
| visits_item:
    "visits root m fuel (Suc n) node path \<Longrightarrow>
     resolveSchemaRef root node = Inr schema \<Longrightarrow>
     propertiesOf m path schema (requiredOf m schema) = Inr properties \<Longrightarrow>
     map fst (ownProps schema) = before @ ''items'' # after \<Longrightarrow>
     deriveKeys (updateSubSchema n root m) properties (requiredOf m schema) path schema before []
       = Some (Inr ret) \<Longrightarrow>
     getProp schema ''items'' = JArr items \<Longrightarrow>
     i < length items \<Longrightarrow>
     deriveItems (updateSubSchema n root m) path (take i items) 0 [] = Some (Inr ds) \<Longrightarrow>
     visits root m fuel n (items ! i) (path @ ''.items['' @ toStringRadix 10 i @ '']'')"
| visits_items:
    "visits root m fuel (Suc n) node path \<Longrightarrow>
     resolveSchemaRef root node = Inr schema \<Longrightarrow>
     propertiesOf m path schema (requiredOf m schema) = Inr properties \<Longrightarrow>
     map fst (ownProps schema) = before @ ''items'' # after \<Longrightarrow>
     deriveKeys (updateSubSchema n root m) properties (requiredOf m schema) path schema before []
       = Some (Inr ret) \<Longrightarrow>
     \<not> instanceofArray (getProp schema ''items'') \<Longrightarrow>
     visits root m fuel n (getProp schema ''items'') (path @ ''.items'')"

section \<open>Auxiliary facts\<close>

lemma map_of_objSet: "map_of (objSet kvs k v) k' = (if k' = k then Some v else map_of kvs k')"
  by (induction kvs) auto

lemma rbind_Some_Inr: "rbind m f = Some (Inr y) \<Longrightarrow> \<exists>x. m = Some (Inr x) \<and> f x = Some (Inr y)"
  by (auto simp: rbind_def split: option.splits sum.splits)

lemma map_of_assign:
  "map_of (assign kvs k v) k' =
     (if k = ''__proto__'' \<and> map_of kvs k = None then map_of kvs k'
      else if k' = k then Some v else map_of kvs k')"
  by (auto simp: assign_def map_of_objSet)

lemma map_of_assign_other: "k' \<noteq> k \<Longrightarrow> map_of (assign kvs k v) k' = map_of kvs k'"
  by (simp add: map_of_assign)

subsection \<open>The hexadecimal rendering\<close>

lemma skipHighZeros_take:
  "n \<le> length bytes \<Longrightarrow>
   skipHighZeros bytes (int n - 1) = int (length (dropWhile (\<lambda>b. b = 0) (rev (take n bytes)))) - 1"
proof (induction n)
  case 0
  then show ?case by (simp add: skipHighZeros.simps)
next
  case (Suc n)
  then have n: "n < length bytes" by simp
  have tk: "take (Suc n) bytes = take n bytes @ [bytes ! n]"
    using n by (simp add: take_Suc_conv_app_nth)
  show ?case
  proof (cases "bytes ! n = 0")
    case True
    then have "skipHighZeros bytes (int (Suc n) - 1) = skipHighZeros bytes (int n - 1)"
      using n by (subst skipHighZeros.simps) (simp add: byteFalsy_def)
    then show ?thesis using Suc True tk by simp
  next
    case False
    then have "skipHighZeros bytes (int (Suc n) - 1) = int n"
      using n by (subst skipHighZeros.simps) (simp add: byteFalsy_def)
    then show ?thesis using False tk n by simp
  qed
qed

lemma appendHex_take:
  "n \<le> length bytes \<Longrightarrow>
   appendHex bytes (int n - 1) str = str @ concat (map byteHex (rev (take n bytes)))"
proof (induction n arbitrary: str)
  case 0
  then show ?case by (simp add: appendHex.simps)
next
  case (Suc n)
  then have n: "n < length bytes" by simp
  have tk: "take (Suc n) bytes = take n bytes @ [bytes ! n]"
    using n by (simp add: take_Suc_conv_app_nth)
  have "appendHex bytes (int (Suc n) - 1) str = appendHex bytes (int n - 1) (str @ byteHex (bytes ! n))"
    by (subst appendHex.simps) simp
  then show ?case using Suc.IH[of "str @ byteHex (bytes ! n)"] n tk by simp
qed

lemma take_high_part:
  "rev (take (length (dropWhile P (rev xs))) xs) = dropWhile P (rev xs)"
proof -
  have "rev xs = takeWhile P (rev xs) @ dropWhile P (rev xs)" by simp
  then have "xs = rev (dropWhile P (rev xs)) @ rev (takeWhile P (rev xs))"
    by (metis rev_append rev_rev_ident)
  then have "take (length (dropWhile P (rev xs))) xs = rev (dropWhile P (rev xs))"
    by (metis append_eq_conv_conj length_rev)
  then show ?thesis by simp
qed

lemma int128_fromDb_eq:
  "int128_fromDb bytes =
     (let hs = dropWhile (\<lambda>b. b = 0) (rev bytes)
      in if hs = [] then ''0x00'' else ''0x'' @ concat (map byteHex hs))"
proof -
  let ?hs = "dropWhile (\<lambda>b. b = 0) (rev bytes)"
  have s: "skipHighZeros bytes (int (length bytes) - 1) = int (length ?hs) - 1"
    using skipHighZeros_take[of "length bytes" bytes] by simp
  have le: "length ?hs \<le> length bytes"
    by (metis length_dropWhile_le length_rev)
  show ?thesis
  proof (cases "?hs = []")
    case True
    then show ?thesis using s by (simp add: int128_fromDb_def)
  next
    case False
    then have "0 < length ?hs" by simp
    then show ?thesis
      using s False appendHex_take[OF le, of "''0x''"] take_high_part[of "\<lambda>b. b = 0" bytes]
      by (simp add: int128_fromDb_def Let_def del: dropWhile_eq_Nil_conv)
  qed
qed

lemma toStringRadix16_digit: "n < 16 \<Longrightarrow> toStringRadix 16 n = [digitChar n]"
  by (subst toStringRadix.simps) simp

lemma toStringRadix16_byte:
  "16 \<le> n \<Longrightarrow> n < 256 \<Longrightarrow> toStringRadix 16 n = [digitChar (n div 16), digitChar (n mod 16)]"
  by (subst toStringRadix.simps) (simp add: toStringRadix16_digit)

lemma byteHex_pair: "byteHex b = [digitChar (unat b div 16), digitChar (unat b mod 16)]"
proof -
  have lt: "unat b < 256" using unsigned_less[of b] by simp
  show ?thesis
  proof (cases "unat b < 16")
    case True
    then show ?thesis by (simp add: byteHex_def toStringRadix16_digit padStart_def digitChar_def)
  next
    case False
    then show ?thesis using lt by (simp add: byteHex_def toStringRadix16_byte padStart_def)
  qed
qed

lemma length_concat_byteHex: "length (concat (map byteHex hs)) = 2 * length hs"
  by (induction hs) (auto simp: byteHex_pair)

subsection \<open>The loop over the keys of a node\<close>

lemma deriveKey_other:
  "deriveKey rec ps req path schema key ret = Some (Inr ret') \<Longrightarrow> k \<noteq> key \<Longrightarrow>
   map_of ret' k = map_of ret k"
  by (auto simp: deriveKey_def return_def map_of_objSet map_of_assign_other dest!: rbind_Some_Inr
      split: if_splits jv.splits option.splits)

lemma deriveKey_dropped:
  "deriveKey rec ps req path schema key ret = Some (Inr ret') \<Longrightarrow>
   key = ''definitions'' \<or> key = ''unmodifiableProperties'' \<Longrightarrow> ret' = ret"
  by (auto simp: deriveKey_def return_def)

lemma deriveKey_required:
  "deriveKey rec ps (Some req) path schema ''required'' ret = Some (Inr ret') \<Longrightarrow>
   map_of ret' ''required'' = Some (JArr req)"
  by (auto simp: deriveKey_def return_def map_of_objSet)

lemma deriveKey_clone:
  "deriveKey rec ps req path schema key ret = Some (Inr ret') \<Longrightarrow>
   key \<notin> {''properties'', ''items'', ''required'', ''definitions'', ''unmodifiableProperties'',
           ''__proto__''} \<Longrightarrow>
   map_of ret' key = Some (clone (getProp schema key))"
  by (auto simp: deriveKey_def return_def map_of_assign)

lemma deriveKeys_step:
  "deriveKeys rec ps req path schema (key # keys) ret = Some (Inr ret') \<Longrightarrow>
   \<exists>r1. deriveKey rec ps req path schema key ret = Some (Inr r1)
      \<and> deriveKeys rec ps req path schema keys r1 = Some (Inr ret')"
  by (auto dest!: rbind_Some_Inr)

lemma deriveKeys_notin:
  "deriveKeys rec ps req path schema keys ret = Some (Inr ret') \<Longrightarrow> k \<notin> set keys \<Longrightarrow>
   map_of ret' k = map_of ret k"
proof (induction keys arbitrary: ret)
  case Nil
  then show ?case by (simp add: return_def)
next
  case (Cons key keys)
  from deriveKeys_step[OF Cons.prems(1)] obtain r1
    where r1: "deriveKey rec ps req path schema key ret = Some (Inr r1)"
      and r2: "deriveKeys rec ps req path schema keys r1 = Some (Inr ret')"
    by blast
  have "map_of ret' k = map_of r1 k" using Cons.IH[OF r2] Cons.prems(2) by simp
  also have "\<dots> = map_of ret k" using deriveKey_other[OF r1] Cons.prems(2) by simp
  finally show ?case .
qed

lemma deriveKeys_dropped:
  "deriveKeys rec ps req path schema keys ret = Some (Inr ret') \<Longrightarrow>
   k = ''definitions'' \<or> k = ''unmodifiableProperties'' \<Longrightarrow> map_of ret' k = map_of ret k"
proof (induction keys arbitrary: ret)
  case Nil
  then show ?case by (simp add: return_def)
next
  case (Cons key keys)
  from deriveKeys_step[OF Cons.prems(1)] obtain r1
    where r1: "deriveKey rec ps req path schema key ret = Some (Inr r1)"
      and r2: "deriveKeys rec ps req path schema keys r1 = Some (Inr ret')"
    by blast
  have "map_of ret' k = map_of r1 k" using Cons.IH[OF r2] Cons.prems(2) by simp
  also have "\<dots> = map_of ret k"
  proof (cases "k = key")
    case True
    then show ?thesis using deriveKey_dropped[OF r1] Cons.prems(2) by simp
  next
    case False
    then show ?thesis using deriveKey_other[OF r1] by simp
  qed
  finally show ?case .
qed

lemma deriveKeys_required:
  "deriveKeys rec ps (Some req) path schema keys ret = Some (Inr ret') \<Longrightarrow>
   ''required'' \<in> set keys \<Longrightarrow> map_of ret' ''required'' = Some (JArr req)"
proof (induction keys arbitrary: ret)
  case Nil
  then show ?case by simp
next
  case (Cons key keys)
  from deriveKeys_step[OF Cons.prems(1)] obtain r1
    where r1: "deriveKey rec ps (Some req) path schema key ret = Some (Inr r1)"
      and r2: "deriveKeys rec ps (Some req) path schema keys r1 = Some (Inr ret')"
    by blast
  show ?case
  proof (cases "''required'' \<in> set keys")
    case True
    then show ?thesis using Cons.IH[OF r2] by simp
  next
    case False
    then have k: "key = ''required''" using Cons.prems(2) by simp
    have "map_of ret' ''required'' = map_of r1 ''required''"
      using deriveKeys_notin[OF r2 False] .
    then show ?thesis using deriveKey_required r1 k by simp
  qed
qed

lemma deriveKeys_clone:
  "deriveKeys rec ps req path schema keys ret = Some (Inr ret') \<Longrightarrow>
   k \<in> set keys \<Longrightarrow>
   k \<notin> {''properties'', ''items'', ''required'', ''definitions'', ''unmodifiableProperties'',
         ''__proto__''} \<Longrightarrow>
   map_of ret' k = Some (clone (getProp schema k))"
proof (induction keys arbitrary: ret)
  case Nil
  then show ?case by simp
next
  case (Cons key keys)
  from deriveKeys_step[OF Cons.prems(1)] obtain r1
    where r1: "deriveKey rec ps req path schema key ret = Some (Inr r1)"
      and r2: "deriveKeys rec ps req path schema keys r1 = Some (Inr ret')"
    by blast
  show ?case
  proof (cases "k \<in> set keys")
    case True
    then show ?thesis using Cons.IH[OF r2 _ Cons.prems(3)] by simp
  next
    case False
    then have k: "key = k" using Cons.prems(2) by simp
    have "map_of ret' k = map_of r1 k"
      using deriveKeys_notin[OF r2 False] .
    then show ?thesis using deriveKey_clone[OF r1] k Cons.prems(3) by simp
  qed
qed

lemma updateSubSchema_Inr:
  "updateSubSchema fuel root m node path = Some (Inr out) \<Longrightarrow>
   \<exists>n schema ps ret. fuel = Suc n \<and> resolveSchemaRef root node = Inr schema \<and>
      propertiesOf m path schema (requiredOf m schema) = Inr ps \<and>
      deriveKeys (updateSubSchema n root m) ps (requiredOf m schema) path schema
        (map fst (ownProps schema)) [] = Some (Inr ret) \<and>
      out = JObj ret"
  by (cases fuel) (auto simp: throw_def return_def Let_def dest!: rbind_Some_Inr split: sum.splits)

lemma deriveProperties_notin:
  "deriveProperties rec props path pv names ret = Some (Inr ret') \<Longrightarrow> p \<notin> set props \<Longrightarrow>
   map_of ret' p = map_of ret p"
proof (induction names arbitrary: ret)
  case Nil
  then show ?case by (simp add: return_def)
next
  case (Cons name names)
  show ?case
  proof (cases "name \<in> set props")
    case True
    then obtain d where "deriveProperties rec props path pv names (assign ret name d) = Some (Inr ret')"
      using Cons.prems(1) by (auto dest!: rbind_Some_Inr)
    from Cons.IH[OF this Cons.prems(2)] show ?thesis
      using True Cons.prems(2) map_of_assign_other[of p name ret d] by auto
  next
    case False
    then show ?thesis using Cons by simp
  qed
qed

lemma deriveKey_properties:
  "deriveKey rec props req path schema ''properties'' ret = Some (Inr ret') \<Longrightarrow>
   \<exists>ps. map_of ret' ''properties'' = Some (JObj ps) \<and> (\<forall>p. p \<notin> set props \<longrightarrow> map_of ps p = None)"
proof -
  assume a: "deriveKey rec props req path schema ''properties'' ret = Some (Inr ret')"
  then obtain ps where ps: "deriveProperties rec props path (getProp schema ''properties'')
             (map fst (ownProps (getProp schema ''properties''))) [] = Some (Inr ps)"
    and r: "ret' = objSet ret ''properties'' (JObj ps)"
    by (auto simp: deriveKey_def return_def dest!: rbind_Some_Inr)
  have "\<forall>p. p \<notin> set props \<longrightarrow> map_of ps p = None"
    using deriveProperties_notin[OF ps] by simp
  then show ?thesis using r by (auto simp: map_of_objSet)
qed

lemma deriveKeys_properties:
  "deriveKeys rec props req path schema keys ret = Some (Inr ret') \<Longrightarrow>
   ''properties'' \<in> set keys \<Longrightarrow>
   \<exists>ps. map_of ret' ''properties'' = Some (JObj ps) \<and> (\<forall>p. p \<notin> set props \<longrightarrow> map_of ps p = None)"
proof (induction keys arbitrary: ret)
  case Nil
  then show ?case by simp
next
  case (Cons key keys)
  from deriveKeys_step[OF Cons.prems(1)] obtain r1
    where r1: "deriveKey rec props req path schema key ret = Some (Inr r1)"
      and r2: "deriveKeys rec props req path schema keys r1 = Some (Inr ret')"
    by blast
  show ?case
  proof (cases "''properties'' \<in> set keys")
    case True
    then show ?thesis using Cons.IH[OF r2] by simp
  next
    case False
    then have k: "key = ''properties''" using Cons.prems(2) by simp
    have "map_of ret' ''properties'' = map_of r1 ''properties''"
      using deriveKeys_notin[OF r2 False] .
    then show ?thesis using deriveKey_properties r1 k by simp
  qed
qed

lemma getProp_defined_JObj:
  "getProp schema k = v \<Longrightarrow> v \<noteq> JUndef \<Longrightarrow> arrayIndex k = None \<Longrightarrow> k \<noteq> ''length'' \<Longrightarrow>
   \<exists>kvs. schema = JObj kvs \<and> k \<in> set (map fst kvs)"
  by (cases schema) (auto split: option.splits dest: map_of_SomeD intro: rev_image_eqI)

subsection \<open>Declarations in the specification's form\<close>

lemma branch_step:
  "isBranch v \<Longrightarrow> (if truthy v then concatJs xs v else xs) = xs @ specNames v"
  by (cases v) (auto simp: concatJs_def)


lemma unmodifiableOf_spec:
  assumes "isDeclaration spec" and "getProp schema ''unmodifiableProperties'' = spec"
  shows "unmodifiableOf m schema = specNormalForm m spec"
proof (cases spec)
  case (JObj r)
  then have u: "isBranch (getProp (JObj r) ''upsert'')"
    and b: "isBranch (getProp (JObj r) (modeName m))"
    using assms(1) by (cases m; simp add: modeName_def)+
  show ?thesis
    using assms(2) JObj branch_step[OF u, of "[]"] branch_step[OF b]
    by (simp add: unmodifiableOf_def Let_def)
next
  case (JArr xs)
  then show ?thesis using assms by (simp add: unmodifiableOf_def concatJs_def)
qed (use assms in \<open>auto simp: unmodifiableOf_def concatJs_def\<close>)

lemma arrayIndex_not_digit: "c \<notin> set ''0123456789'' \<Longrightarrow> arrayIndex (c # cs) = None"
  by (simp add: arrayIndex_def)


subsection \<open>The checks on unmodifiable properties\<close>

lemma includesJs_name: "includesJs xs (JStr p) = (JStr p \<in> set xs)"
  by (induction xs) (auto simp: includesJs_def strictEq_def)

lemma firstConflict_exists:
  "r \<in> set req \<Longrightarrow> includesJs un r \<Longrightarrow>
   \<exists>r'. firstConflict req un = Some r' \<and> r' \<in> set req \<and> includesJs un r'"
  unfolding firstConflict_def
  by (cases "find (includesJs un) req") (auto simp: find_None_iff find_Some_iff)

lemma firstConflict_none: "firstConflict req un = None \<Longrightarrow> r \<in> set req \<Longrightarrow> \<not> includesJs un r"
  unfolding firstConflict_def by (auto simp: find_None_iff)

lemma updateSubSchema_conflict:
  assumes "resolveSchemaRef root node = Inr schema"
    and "truthy (getProp schema ''properties'')"
    and "truthy (getProp schema ''unmodifiableProperties'')"
    and "requiredOf m schema = Some req"
    and "firstConflict req (unmodifiableOf m schema) = Some r"
  shows "updateSubSchema (Suc n) root m node path = Some (Inl (RequiredUnmodifiableError r path m))"
  using assms by (simp add: propertiesOf_def throw_def Let_def)

lemma updateSubSchema_policy:
  assumes "resolveSchemaRef root node = Inr schema"
    and "truthy (getProp schema ''properties'')"
    and "truthy (getProp schema ''unmodifiableProperties'')"
    and "requiredOf m schema = Some req"
    and "firstConflict req (unmodifiableOf m schema) = None"
    and "getProp schema ''additionalProperties'' \<noteq> JBool False"
  shows "updateSubSchema (Suc n) root m node path = Some (Inl (AdditionalPropertiesError path))"
  using assms by (simp add: propertiesOf_def throw_def Let_def)

lemma requiredOf_any_mode: "requiredOf m schema = Some req \<Longrightarrow> \<exists>req'. requiredOf m' schema = Some req'"
  by (auto simp: requiredOf_def Let_def split: if_splits)

lemma updateSubSchema_open_throws:
  assumes "resolveSchemaRef root node = Inr schema"
    and "truthy (getProp schema ''properties'')"
    and "truthy (getProp schema ''unmodifiableProperties'')"
    and "getProp schema ''additionalProperties'' \<noteq> JBool False"
  shows "\<exists>e. updateSubSchema (Suc n) root m node path = Some (Inl e)"
  using assms
  by (cases "requiredOf m schema"; cases "firstConflict (the (requiredOf m schema)) (unmodifiableOf m schema)")
    (auto simp: propertiesOf_def throw_def Let_def)

lemma propertiesOf_Inr:
  assumes "propertiesOf m path schema required = Inr props"
    and "truthy (getProp schema ''properties'')"
    and "truthy (getProp schema ''unmodifiableProperties'')"
  shows "\<exists>req. required = Some req \<and> firstConflict req (unmodifiableOf m schema) = None
           \<and> getProp schema ''additionalProperties'' = JBool False
           \<and> (\<forall>p. JStr p \<in> set (unmodifiableOf m schema) \<longrightarrow> p \<notin> set props)"
  using assms
  by (auto simp: propertiesOf_def Let_def includesJs_name split: option.splits if_splits)

lemma rbind_Inl: "rbind (Some (Inl e)) f = Some (Inl e)"
  by (simp add: rbind_def)

lemma rbind_Inr: "rbind (Some (Inr x)) f = f x"
  by (simp add: rbind_def)

lemma rbind_assoc: "rbind (rbind a f) g = rbind a (\<lambda>x. rbind (f x) g)"
  by (simp add: rbind_def split: option.splits sum.splits)

lemma deriveKeys_append:
  "deriveKeys rec ps req path schema (a @ b) ret =
     rbind (deriveKeys rec ps req path schema a ret) (deriveKeys rec ps req path schema b)"
proof (induction a arbitrary: ret)
  case Nil
  then show ?case by (simp add: return_def rbind_Inr)
next
  case (Cons k a)
  have "deriveKeys rec ps req path schema (a @ b) =
          (\<lambda>x. rbind (deriveKeys rec ps req path schema a x) (deriveKeys rec ps req path schema b))"
    using Cons by (intro ext)
  then show ?case by (simp add: rbind_assoc)
qed

lemma deriveProperties_append:
  "deriveProperties rec ps path props (a @ b) ret =
     rbind (deriveProperties rec ps path props a ret) (deriveProperties rec ps path props b)"
  by (induction a arbitrary: ret) (simp_all add: return_def rbind_Inr rbind_assoc)

lemma deriveItems_append:
  "deriveItems rec path (a @ b) i ret =
     rbind (deriveItems rec path a i ret) (deriveItems rec path b (i + length a))"
  by (induction a arbitrary: i ret) (simp_all add: return_def rbind_Inr rbind_assoc)

lemma updateSubSchema_keys:
  assumes "resolveSchemaRef root node = Inr schema"
    and "propertiesOf m path schema (requiredOf m schema) = Inr properties"
    and "map fst (ownProps schema) = before @ key # after"
    and "deriveKeys (updateSubSchema n root m) properties (requiredOf m schema) path schema before []
           = Some (Inr ret)"
    and "deriveKey (updateSubSchema n root m) properties (requiredOf m schema) path schema key ret
           = Some (Inl e)"
  shows "updateSubSchema (Suc n) root m node path = Some (Inl e)"
  using assms by (simp add: Let_def deriveKeys_append rbind_Inr rbind_Inl)

lemma visits_throws:
  "visits root m fuel n node path \<Longrightarrow>
   updateSubSchema n root m node path = Some (Inl e) \<Longrightarrow>
   updateSubSchema fuel root m root ''schema'' = Some (Inl e)"
proof (induction rule: visits.induct)
  case visits_root
  then show ?case by simp
next
  case (visits_property n node path schema properties before after ret earlier property later ps)
  have "deriveProperties (updateSubSchema n root m) properties path (getProp schema ''properties'')
          (earlier @ property # later) [] = Some (Inl e)"
    using visits_property.hyps(7,8) visits_property.prems
    by (simp add: deriveProperties_append rbind_Inr rbind_Inl)
  then have "deriveKey (updateSubSchema n root m) properties (requiredOf m schema) path schema
               ''properties'' ret = Some (Inl e)"
    using visits_property.hyps(6) by (simp add: deriveKey_def rbind_Inl)
  then have "updateSubSchema (Suc n) root m node path = Some (Inl e)"
    using updateSubSchema_keys visits_property.hyps(2,3,4,5) by blast
  then show ?case using visits_property.IH by simp
next
  case (visits_item n node path schema properties before after ret items i ds)
  have split: "items = take i items @ (items ! i) # drop (Suc i) items"
    using visits_item.hyps(7) by (simp add: id_take_nth_drop)
  have "deriveItems (updateSubSchema n root m) path (take i items @ (items ! i) # drop (Suc i) items) 0 []
          = Some (Inl e)"
    using visits_item.hyps(7,8) visits_item.prems
    by (simp add: deriveItems_append rbind_Inr rbind_Inl)
  then have "deriveItems (updateSubSchema n root m) path items 0 [] = Some (Inl e)"
    using split by simp
  then have "deriveKey (updateSubSchema n root m) properties (requiredOf m schema) path schema
               ''items'' ret = Some (Inl e)"
    using visits_item.hyps(6) by (simp add: deriveKey_def rbind_Inl)
  then have "updateSubSchema (Suc n) root m node path = Some (Inl e)"
    using updateSubSchema_keys visits_item.hyps(2,3,4,5) by blast
  then show ?case using visits_item.IH by simp
next
  case (visits_items n node path schema properties before after ret)
  have "deriveKey (updateSubSchema n root m) properties (requiredOf m schema) path schema
               ''items'' ret = Some (Inl e)"
    using visits_items.hyps(6) visits_items.prems
    by (cases "getProp schema ''items''") (simp_all add: deriveKey_def rbind_Inl)
  then have "updateSubSchema (Suc n) root m node path = Some (Inl e)"
    using updateSubSchema_keys visits_items.hyps(2,3,4,5) by blast
  then show ?case using visits_items.IH by simp
qed

subsection \<open>The two derivations of \<open>getValidationData\<close>\<close>

lemma getValidationData_Inl:
  "getSchema fuel root Insert = Some (Inl e) \<Longrightarrow> getValidationData fuel compile root = Some (Inl e)"
  by (simp add: getValidationData_def rbind_def)

lemma getValidationData_update:
  "getSchema fuel root Update = Some (Inl e) \<Longrightarrow>
   getValidationData fuel compile root =
     (case getSchema fuel root Insert of
        None \<Rightarrow> None
      | Some (Inl e') \<Rightarrow> Some (Inl e')
      | Some (Inr s) \<Rightarrow> Some (Inl e))"
  by (simp add: getValidationData_def rbind_def split: option.splits sum.splits)

lemma getValidationData_Inr:
  "getValidationData fuel compile root = Some (Inr v) \<Longrightarrow>
   \<exists>si su. getSchema fuel root Insert = Some (Inr si) \<and> getSchema fuel root Update = Some (Inr su)"
  by (auto simp: getValidationData_def dest!: rbind_Some_Inr)

subsection \<open>The loop over the fields of a document\<close>




section \<open>C7: the reverse conversion of int128\<close>

text \<open>
  Claim C7. For every byte buffer of a storage value, in particular every buffer of 16
  bytes, the reverse conversion of \<open>int128\<close> returns \<open>0x\<close> followed by the bytes from the
  highest non-zero byte down to byte 0, each as two lower-case hexadecimal digits; the
  zero bytes above the highest non-zero byte are left out. The result holds at least
  one pair of digits, and for 16 zero bytes it is exactly \<open>0x00\<close>.
\<close>

theorem int128_fromDb_strips_high_zero_bytes:
  "int128_fromDb bytes =
     (let hs = dropWhile (\<lambda>b. b = 0) (rev bytes)
      in if hs = [] then ''0x00''
         else ''0x'' @ concat (map (\<lambda>b. [digitChar (unat b div 16), digitChar (unat b mod 16)]) hs))
   \<and> 4 \<le> length (int128_fromDb bytes)
   \<and> even (length (int128_fromDb bytes))
   \<and> int128_fromDb (replicate 16 0) = ''0x00''"
proof -
  let ?hs = "dropWhile (\<lambda>b. b = 0) (rev bytes)"
  have m: "byteHex = (\<lambda>b. [digitChar (unat b div 16), digitChar (unat b mod 16)])"
    by (rule ext) (rule byteHex_pair)
  have 1: "int128_fromDb bytes =
     (let hs = ?hs in if hs = [] then ''0x00''
         else ''0x'' @ concat (map (\<lambda>b. [digitChar (unat b div 16), digitChar (unat b mod 16)]) hs))"
    using int128_fromDb_eq[of bytes] unfolding m .
  have len: "length (int128_fromDb bytes) = (if ?hs = [] then 4 else 2 + 2 * length ?hs)"
    using int128_fromDb_eq[of bytes] by (simp add: Let_def length_concat_byteHex del: dropWhile_eq_Nil_conv)
  have 2: "4 \<le> length (int128_fromDb bytes)"
    using len by (cases ?hs) (simp_all del: dropWhile_eq_Nil_conv)
  have 3: "even (length (int128_fromDb bytes))"
    using len by (simp del: dropWhile_eq_Nil_conv)
  have 4: "int128_fromDb (replicate 16 0) = ''0x00''"
    by (simp add: int128_fromDb_eq)
  show ?thesis using 1 2 3 4 by blast
qed

theorem int128_fromDb_strips_high_zero_bytes_witness:
  "int128_fromDb bytes1a2b = ''0x1a2b''"
  using int128_fromDb_strips_high_zero_bytes[of bytes1a2b]
  by (simp add: bytes1a2b_def digitChar_def)

section \<open>C5: the required names of a mode\<close>




section \<open>C2: a name both required and unmodifiable\<close>

text \<open>
  Claim C2, as amended. Let the derivation for mode \<open>m\<close> visit a node, at any depth, whose
  schema, after its \<open>$ref\<close> is resolved, declares \<open>properties\<close> and \<open>unmodifiableProperties\<close>
  (both truthy), and let some name be both in its required list and in its unmodifiable
  list for \<open>m\<close>. Then the call on the node throws the \<open>MongolError\<close> that carries the first
  required name that is unmodifiable, the dotted path of the node (\<open>schema\<close> for the root,
  extended by \<open>.properties.name\<close>, \<open>.items[i]\<close> or \<open>.items\<close> at every step down) and \<open>m\<close>, and
  this error is what the derivation of the whole schema for \<open>m\<close> throws. \<open>getValidationData\<close>
  throws it when \<open>m\<close> is insert; when \<open>m\<close> is update it throws it if the insert-mode
  derivation, which runs first, returned a schema, and otherwise ends as that derivation
  did. In no case does \<open>getValidationData\<close> return validation data.
\<close>

theorem required_unmodifiable_conflict:
  assumes "visits root m fuel (Suc n) node path"
    and "resolveSchemaRef root node = Inr schema"
    and "truthy (getProp schema ''properties'')"
    and "truthy (getProp schema ''unmodifiableProperties'')"
    and "requiredOf m schema = Some req"
    and "JStr p \<in> set req"
    and "JStr p \<in> set (unmodifiableOf m schema)"
  shows "\<exists>r. firstConflict req (unmodifiableOf m schema) = Some r
           \<and> updateSubSchema (Suc n) root m node path = Some (Inl (RequiredUnmodifiableError r path m))
           \<and> getSchema fuel root m = Some (Inl (RequiredUnmodifiableError r path m))
           \<and> (m = Insert \<longrightarrow>
                getValidationData fuel compile root = Some (Inl (RequiredUnmodifiableError r path m)))
           \<and> (m = Update \<longrightarrow>
                getValidationData fuel compile root =
                  (case getSchema fuel root Insert of
                     None \<Rightarrow> None
                   | Some (Inl e) \<Rightarrow> Some (Inl e)
                   | Some (Inr s) \<Rightarrow> Some (Inl (RequiredUnmodifiableError r path m))))
           \<and> (\<forall>v. getValidationData fuel compile root \<noteq> Some (Inr v))"
proof -
  obtain r where r: "firstConflict req (unmodifiableOf m schema) = Some r"
    using firstConflict_exists[OF assms(6)] assms(7) by (auto simp: includesJs_name)
  have u: "updateSubSchema (Suc n) root m node path = Some (Inl (RequiredUnmodifiableError r path m))"
    using updateSubSchema_conflict[OF assms(2-5) r] .
  have g: "getSchema fuel root m = Some (Inl (RequiredUnmodifiableError r path m))"
    using visits_throws[OF assms(1) u] by (simp add: getSchema_def)
  have i: "m = Insert \<longrightarrow>
            getValidationData fuel compile root = Some (Inl (RequiredUnmodifiableError r path m))"
    using g getValidationData_Inl by blast
  have up: "m = Update \<longrightarrow>
            getValidationData fuel compile root =
              (case getSchema fuel root Insert of
                 None \<Rightarrow> None
               | Some (Inl e) \<Rightarrow> Some (Inl e)
               | Some (Inr s) \<Rightarrow> Some (Inl (RequiredUnmodifiableError r path m)))"
    using g getValidationData_update by blast
  have no: "getValidationData fuel compile root \<noteq> Some (Inr v)" for v
    using getValidationData_Inr[of fuel compile root v] g by (cases m) auto
  show ?thesis using r u g i up no by blast
qed

text \<open>
  The node with \<open>a\<close> required and unmodifiable as the sub-schema of the property \<open>child\<close>:
  the derivation visits it after the property \<open>name\<close>, and the error names \<open>a\<close>, the path
  \<open>schema.properties.child\<close> and the mode.
\<close>

theorem required_unmodifiable_conflict_witness:
  "getSchema 2 nestedConflictSchema Insert
     = Some (Inl (RequiredUnmodifiableError (JStr ''a'') ''schema.properties.child'' Insert))
   \<and> getValidationData 2 Some nestedConflictSchema
     = Some (Inl (RequiredUnmodifiableError (JStr ''a'') ''schema.properties.child'' Insert))"
proof -
  let ?root = nestedConflictSchema
  have props: "getProp ?root ''properties''
                 = JObj [(''name'', JObj [(''type'', JStr ''string'')]), (''child'', conflictChild)]"
    by (simp add: nestedConflictSchema_def)
  have v0: "visits ?root Insert 2 (Suc 1) ?root ''schema''"
    using visits_root[of ?root Insert 2] by (simp add: numeral_2_eq_2)
  have a1: "resolveSchemaRef ?root ?root = Inr ?root"
    by (simp add: resolveSchemaRef_def nestedConflictSchema_def)
  have a2: "propertiesOf Insert ''schema'' ?root (requiredOf Insert ?root) = Inr [''name'', ''child'']"
    by (simp add: propertiesOf_def nestedConflictSchema_def)
  have a3: "map fst (ownProps ?root) = [''type''] @ ''properties'' # []"
    by (simp add: nestedConflictSchema_def)
  have a4: "deriveKeys (updateSubSchema 1 ?root Insert) [''name'', ''child''] (requiredOf Insert ?root)
              ''schema'' ?root [''type''] [] = Some (Inr [(''type'', JStr ''object'')])"
    by code_simp
  have a5: "map fst (ownProps (getProp ?root ''properties'')) = [''name''] @ ''child'' # []"
    by (simp add: props)
  have a6: "''child'' \<in> set [''name'', ''child'']" by simp
  have a7: "deriveProperties (updateSubSchema 1 ?root Insert) [''name'', ''child''] ''schema''
              (getProp ?root ''properties'') [''name''] []
            = Some (Inr [(''name'', JObj [(''type'', JStr ''string'')])])"
    by code_simp
  have v1: "visits ?root Insert 2 (Suc 0) conflictChild ''schema.properties.child''"
    using visits_property[OF v0 a1 a2 a3 a4 a5 a6 a7] by (simp add: props)
  have h1: "resolveSchemaRef ?root conflictChild = Inr conflictChild"
    by (simp add: resolveSchemaRef_def conflictChild_def)
  have h2: "truthy (getProp conflictChild ''properties'')" by (simp add: conflictChild_def)
  have h3: "truthy (getProp conflictChild ''unmodifiableProperties'')" by (simp add: conflictChild_def)
  have h4: "requiredOf Insert conflictChild = Some [JStr ''a'']"
    by (simp add: requiredOf_def conflictChild_def)
  have h5: "JStr ''a'' \<in> set [JStr ''a'']" by simp
  have h6: "JStr ''a'' \<in> set (unmodifiableOf Insert conflictChild)"
    by (simp add: unmodifiableOf_def conflictChild_def concatJs_def)
  have f: "firstConflict [JStr ''a''] (unmodifiableOf Insert conflictChild) = Some r \<Longrightarrow> r = JStr ''a''" for r
    by (auto simp: firstConflict_def split: if_splits)
  show ?thesis
    using required_unmodifiable_conflict[where compile=Some, OF v1 h1 h2 h3 h4 h5 h6] f
    by auto
qed

text \<open>
  The claim as stated fails in four ways. The derivation visits the root, the
  sub-schemas of the properties it keeps and the \<open>items\<close>, and copies what is under any
  other key: the node with \<open>a\<close> required and unmodifiable as a member of \<open>anyOf\<close> is
  copied, and the derivation returns. For a node without \<open>properties\<close> no error is raised,
  the names being compared only inside \<open>if (schema.properties)\<close>: for
  \<open>{type: 'object', required: 'a', unmodifiableProperties: 'a', additionalProperties: false}\<close>
  both derivations return a schema and \<open>getValidationData\<close> returns. For a name in
  conflict in update mode the error raised can be that of insert mode, which is derived
  first: so it is for \<open>_id\<close> in the specification's example. And of two names in conflict
  only the first in the order of \<open>required\<close> is named: \<open>b\<close> is required and unmodifiable in
  the last schema, and the error names \<open>a\<close>.
\<close>

theorem conflict_not_raised_counterexample:
  "getSchema 1 anyOfConflictSchema Insert
     = Some (Inr (JObj [(''type'', JStr ''object''), (''anyOf'', JArr [conflictChild])]))
   \<and> getSchema 1 anyOfConflictSchema Update
     = Some (Inr (JObj [(''type'', JStr ''object''), (''anyOf'', JArr [conflictChild])]))
   \<and> requiredOf Insert conflictChild = Some [JStr ''a'']
   \<and> unmodifiableOf Insert conflictChild = [JStr ''a'']
   \<and> requiredOf Insert conflictWithoutPropertiesSchema = Some [JStr ''a'']
   \<and> unmodifiableOf Insert conflictWithoutPropertiesSchema = [JStr ''a'']
   \<and> getValidationData 1 Some conflictWithoutPropertiesSchema =
       Some (Inr \<lparr>insertData =
                    \<lparr>modeSchema = JObj [(''type'', JStr ''object''), (''required'', JArr [JStr ''a'']),
                                         (''additionalProperties'', JBool False)],
                     modeValidator = JObj [(''type'', JStr ''object''), (''required'', JArr [JStr ''a'']),
                                            (''additionalProperties'', JBool False)]\<rparr>,
                  updateData =
                    \<lparr>modeSchema = JObj [(''type'', JStr ''object''), (''required'', JArr [JStr ''a'']),
                                         (''additionalProperties'', JBool False)],
                     modeValidator = JObj [(''type'', JStr ''object''), (''required'', JArr [JStr ''a'']),
                                            (''additionalProperties'', JBool False)]\<rparr>\<rparr>)
   \<and> requiredOf Update conflictSchema = Some [JStr ''_id'']
   \<and> unmodifiableOf Update conflictSchema = [JStr ''_id'']
   \<and> getValidationData 1 Some conflictSchema
        = Some (Inl (RequiredUnmodifiableError (JStr ''_id'') ''schema'' Insert))
   \<and> requiredOf Insert twoConflictsSchema = Some [JStr ''a'', JStr ''b'']
   \<and> unmodifiableOf Insert twoConflictsSchema = [JStr ''b'', JStr ''a'']
   \<and> getValidationData 1 Some twoConflictsSchema
        = Some (Inl (RequiredUnmodifiableError (JStr ''a'') ''schema'' Insert))"
  by code_simp

section \<open>C6: unmodifiable properties need additionalProperties: false\<close>

text \<open>
  Claim C6, as amended. Let the derivation for mode \<open>m\<close> visit a node, at any depth, whose
  schema, after its \<open>$ref\<close> is resolved, declares \<open>properties\<close>, \<open>unmodifiableProperties\<close> and
  \<open>required\<close> (all truthy), with no required name unmodifiable for \<open>m\<close>, and whose
  \<open>additionalProperties\<close> is not \<open>false\<close>. Then the call on the node throws the
  \<open>MongolError\<close> that carries the dotted path of the node, and this error is what the
  derivation of the whole schema for \<open>m\<close> throws. \<open>getValidationData\<close> throws it when \<open>m\<close>
  is insert; when \<open>m\<close> is update it throws it if the insert-mode derivation, which runs
  first, returned a schema, and otherwise ends as that derivation did. In no case does
  \<open>getValidationData\<close> return validation data.
\<close>

theorem additionalProperties_must_be_false:
  assumes "visits root m fuel (Suc n) node path"
    and "resolveSchemaRef root node = Inr schema"
    and "truthy (getProp schema ''properties'')"
    and "truthy (getProp schema ''unmodifiableProperties'')"
    and "requiredOf m schema = Some req"
    and "firstConflict req (unmodifiableOf m schema) = None"
    and "getProp schema ''additionalProperties'' \<noteq> JBool False"
  shows "updateSubSchema (Suc n) root m node path = Some (Inl (AdditionalPropertiesError path))
       \<and> getSchema fuel root m = Some (Inl (AdditionalPropertiesError path))
       \<and> (m = Insert \<longrightarrow>
            getValidationData fuel compile root = Some (Inl (AdditionalPropertiesError path)))
       \<and> (m = Update \<longrightarrow>
            getValidationData fuel compile root =
              (case getSchema fuel root Insert of
                 None \<Rightarrow> None
               | Some (Inl e) \<Rightarrow> Some (Inl e)
               | Some (Inr s) \<Rightarrow> Some (Inl (AdditionalPropertiesError path))))
       \<and> (\<forall>v. getValidationData fuel compile root \<noteq> Some (Inr v))"
proof -
  have u: "updateSubSchema (Suc n) root m node path = Some (Inl (AdditionalPropertiesError path))"
    using updateSubSchema_policy[OF assms(2-7)] .
  have g: "getSchema fuel root m = Some (Inl (AdditionalPropertiesError path))"
    using visits_throws[OF assms(1) u] by (simp add: getSchema_def)
  have i: "m = Insert \<longrightarrow>
            getValidationData fuel compile root = Some (Inl (AdditionalPropertiesError path))"
    using g getValidationData_Inl by blast
  have up: "m = Update \<longrightarrow>
            getValidationData fuel compile root =
              (case getSchema fuel root Insert of
                 None \<Rightarrow> None
               | Some (Inl e) \<Rightarrow> Some (Inl e)
               | Some (Inr s) \<Rightarrow> Some (Inl (AdditionalPropertiesError path)))"
    using g getValidationData_update by blast
  have no: "getValidationData fuel compile root \<noteq> Some (Inr v)" for v
    using getValidationData_Inr[of fuel compile root v] g by (cases m) auto
  show ?thesis using u g i up no by blast
qed

text \<open>
  The node without \<open>additionalProperties\<close> as the second member of the tuple \<open>items\<close> of
  the property \<open>list\<close>: the derivation visits it after the first member, and the error
  carries the path \<open>schema.properties.list.items[1]\<close>.
\<close>

theorem additionalProperties_must_be_false_witness:
  "getSchema 3 nestedOpenSchema Insert
     = Some (Inl (AdditionalPropertiesError ''schema.properties.list.items[1]''))
   \<and> getValidationData 3 Some nestedOpenSchema
     = Some (Inl (AdditionalPropertiesError ''schema.properties.list.items[1]''))"
proof -
  let ?root = nestedOpenSchema
  have props: "getProp ?root ''properties'' = JObj [(''list'', listNode)]"
    by (simp add: nestedOpenSchema_def)
  have v0: "visits ?root Insert 3 (Suc 2) ?root ''schema''"
    using visits_root[of ?root Insert 3] by (simp add: numeral_3_eq_3 numeral_2_eq_2)
  have a1: "resolveSchemaRef ?root ?root = Inr ?root"
    by (simp add: resolveSchemaRef_def nestedOpenSchema_def)
  have a2: "propertiesOf Insert ''schema'' ?root (requiredOf Insert ?root) = Inr [''list'']"
    by (simp add: propertiesOf_def nestedOpenSchema_def)
  have a3: "map fst (ownProps ?root) = [''type''] @ ''properties'' # []"
    by (simp add: nestedOpenSchema_def)
  have a4: "deriveKeys (updateSubSchema 2 ?root Insert) [''list''] (requiredOf Insert ?root)
              ''schema'' ?root [''type''] [] = Some (Inr [(''type'', JStr ''object'')])"
    by code_simp
  have a5: "map fst (ownProps (getProp ?root ''properties'')) = [] @ ''list'' # []"
    by (simp add: props)
  have a6: "''list'' \<in> set [''list'']" by simp
  have a7: "deriveProperties (updateSubSchema 2 ?root Insert) [''list''] ''schema''
              (getProp ?root ''properties'') [] [] = Some (Inr [])"
    by (simp add: return_def)
  have v1: "visits ?root Insert 3 (Suc 1) listNode ''schema.properties.list''"
    using visits_property[OF v0 a1 a2 a3 a4 a5 a6 a7] by (simp add: props numeral_2_eq_2)
  have b1: "resolveSchemaRef ?root listNode = Inr listNode"
    by (simp add: resolveSchemaRef_def listNode_def)
  have b2: "propertiesOf Insert ''schema.properties.list'' listNode (requiredOf Insert listNode) = Inr []"
    by (simp add: propertiesOf_def listNode_def)
  have b3: "map fst (ownProps listNode) = [''type''] @ ''items'' # []"
    by (simp add: listNode_def)
  have b4: "deriveKeys (updateSubSchema 1 ?root Insert) [] (requiredOf Insert listNode)
              ''schema.properties.list'' listNode [''type''] [] = Some (Inr [(''type'', JStr ''array'')])"
    by code_simp
  have b5: "getProp listNode ''items'' = JArr [JObj [(''type'', JStr ''string'')], openChild]"
    by (simp add: listNode_def)
  have b6: "1 < length [JObj [(''type'', JStr ''string'')], openChild]" by simp
  have b7: "deriveItems (updateSubSchema 1 ?root Insert) ''schema.properties.list''
              (take 1 [JObj [(''type'', JStr ''string'')], openChild]) 0 []
            = Some (Inr [JObj [(''type'', JStr ''string'')]])"
    by code_simp
  have idx: "toStringRadix 10 (Suc 0) = ''1''"
    by (subst toStringRadix.simps) (simp add: digitChar_def)
  have v2: "visits ?root Insert 3 (Suc 0) openChild ''schema.properties.list.items[1]''"
    using visits_item[OF v1 b1 b2 b3 b4 b5 b6 b7] by (simp add: idx)
  have h1: "resolveSchemaRef ?root openChild = Inr openChild"
    by (simp add: resolveSchemaRef_def openChild_def)
  have h2: "truthy (getProp openChild ''properties'')" by (simp add: openChild_def)
  have h3: "truthy (getProp openChild ''unmodifiableProperties'')" by (simp add: openChild_def)
  have h4: "requiredOf Insert openChild = Some [JStr ''b'']"
    by (simp add: requiredOf_def openChild_def)
  have h5: "firstConflict [JStr ''b''] (unmodifiableOf Insert openChild) = None"
    by (simp add: firstConflict_def unmodifiableOf_def openChild_def concatJs_def includesJs_def
        strictEq_def)
  have h6: "getProp openChild ''additionalProperties'' \<noteq> JBool False" by (simp add: openChild_def)
  show ?thesis
    using additionalProperties_must_be_false[where compile=Some, OF v2 h1 h2 h3 h4 h5 h6]
    by simp
qed

text \<open>
  The claim as stated fails in three ways. A node that the derivation does not visit is
  copied, as the member of \<open>anyOf\<close> is, and the derivation returns. For a node without
  \<open>properties\<close> no error is raised, as \<open>unmodifiableProperties\<close> is read only inside
  \<open>if (schema.properties)\<close>: for \<open>{type: 'object', unmodifiableProperties: 'a'}\<close>, where
  \<open>additionalProperties\<close> is not set, both derivations return \<open>{type: 'object'}\<close>. And a
  node with a name both required and unmodifiable raises the error of that conflict,
  which is looked for first, and not the error about \<open>additionalProperties\<close>.
\<close>

theorem policy_error_not_raised_counterexample:
  "getProp openChild ''additionalProperties'' = JUndef
   \<and> getSchema 1 anyOfOpenSchema Insert
       = Some (Inr (JObj [(''type'', JStr ''object''), (''anyOf'', JArr [openChild])]))
   \<and> getSchema 1 anyOfOpenSchema Update
       = Some (Inr (JObj [(''type'', JStr ''object''), (''anyOf'', JArr [openChild])]))
   \<and> getProp openWithoutPropertiesSchema ''additionalProperties'' = JUndef
   \<and> getSchema 1 openWithoutPropertiesSchema Insert = Some (Inr (JObj [(''type'', JStr ''object'')]))
   \<and> getSchema 1 openWithoutPropertiesSchema Update = Some (Inr (JObj [(''type'', JStr ''object'')]))
   \<and> getValidationData 1 Some openWithoutPropertiesSchema =
       Some (Inr \<lparr>insertData = \<lparr>modeSchema = JObj [(''type'', JStr ''object'')],
                                 modeValidator = JObj [(''type'', JStr ''object'')]\<rparr>,
                  updateData = \<lparr>modeSchema = JObj [(''type'', JStr ''object'')],
                                 modeValidator = JObj [(''type'', JStr ''object'')]\<rparr>\<rparr>)
   \<and> getProp openConflictSchema ''additionalProperties'' = JUndef
   \<and> getValidationData 1 Some openConflictSchema
        = Some (Inl (RequiredUnmodifiableError (JStr ''a'') ''schema'' Insert))"
  by code_simp

section \<open>C4: unmodifiable properties without a required field\<close>

text \<open>
  Claim C4 says that the derived node leaves out the unmodifiable names whether or not
  the node declares \<open>required\<close>. The code does not get that far without \<open>required\<close>: for
  every node that declares \<open>properties\<close> and \<open>unmodifiableProperties\<close> and has no (truthy)
  \<open>required\<close>, the local \<open>required\<close> is \<open>undefined\<close> and \<open>required.map\<close> throws a
  \<open>TypeError\<close>, in both modes, so that \<open>getValidationData\<close> throws it for such a root.
\<close>

theorem unmodifiable_without_required_throws:
  assumes "resolveSchemaRef root node = Inr schema"
    and "truthy (getProp schema ''properties'')"
    and "truthy (getProp schema ''unmodifiableProperties'')"
    and "\<not> truthy (getProp schema ''required'')"
  shows "updateSubSchema (Suc n) root m node path = Some (Inl TypeError)
       \<and> (node = root \<longrightarrow> getValidationData (Suc n) compile root = Some (Inl TypeError))"
proof -
  have u: "\<And>m path. updateSubSchema (Suc n) root m node path = Some (Inl TypeError)"
    using assms by (simp add: propertiesOf_def requiredOf_def throw_def Let_def)
  show ?thesis
    using u by (auto simp: getValidationData_def getSchema_def rbind_def)
qed

text \<open>
  \<open>{type: 'object', properties: {_id: ..., a: ...}, unmodifiableProperties: '_id',
     additionalProperties: false}\<close>, the first example of the function's documentation.
\<close>

theorem unmodifiable_without_required_throws_witness:
  "getSchema 1 unmodifiableOnlySchema Insert = Some (Inl TypeError)
   \<and> getSchema 1 unmodifiableOnlySchema Update = Some (Inl TypeError)
   \<and> getValidationData 1 Some unmodifiableOnlySchema = Some (Inl TypeError)"
proof -
  have h1: "resolveSchemaRef unmodifiableOnlySchema unmodifiableOnlySchema = Inr unmodifiableOnlySchema"
    by (simp add: resolveSchemaRef_def unmodifiableOnlySchema_def)
  have h2: "truthy (getProp unmodifiableOnlySchema ''properties'')"
    by (simp add: unmodifiableOnlySchema_def)
  have h3: "truthy (getProp unmodifiableOnlySchema ''unmodifiableProperties'')"
    by (simp add: unmodifiableOnlySchema_def)
  have h4: "\<not> truthy (getProp unmodifiableOnlySchema ''required'')"
    by (simp add: unmodifiableOnlySchema_def)
  show ?thesis
    using unmodifiable_without_required_throws[where m=Insert and n=0 and path="''schema''" and compile=Some, OF h1 h2 h3 h4]
      unmodifiable_without_required_throws[where m=Update and n=0 and path="''schema''" and compile=Some, OF h1 h2 h3 h4]
    by (simp add: getSchema_def)
qed

text \<open>
  With \<open>required\<close> declared the rest of the claim holds. When the derivation of a node
  that declares \<open>properties\<close> and \<open>unmodifiableProperties\<close> returns, then
  \<open>additionalProperties\<close> is \<open>false\<close>, the derived \<open>required\<close> is the required list of the
  mode and holds no unmodifiable name, the derived \<open>properties\<close> has no entry for an
  unmodifiable name, \<open>definitions\<close> and \<open>unmodifiableProperties\<close> are absent, and every key
  other than these, \<open>items\<close> and \<open>__proto__\<close> has a copy of the value it has in the node.
\<close>

lemma derived_node_invariant:
  assumes "resolveSchemaRef root node = Inr schema"
    and "truthy (getProp schema ''properties'')"
    and "truthy (getProp schema ''unmodifiableProperties'')"
    and "updateSubSchema fuel root m node path = Some (Inr out)"
  shows "getProp schema ''additionalProperties'' = JBool False
       \<and> (\<exists>req. requiredOf m schema = Some req \<and> getProp out ''required'' = JArr req
              \<and> (\<forall>p. JStr p \<in> set (unmodifiableOf m schema) \<longrightarrow> JStr p \<notin> set req))
       \<and> (\<exists>ps. getProp out ''properties'' = JObj ps
              \<and> (\<forall>p. JStr p \<in> set (unmodifiableOf m schema) \<longrightarrow> map_of ps p = None))
       \<and> getProp out ''definitions'' = JUndef
       \<and> getProp out ''unmodifiableProperties'' = JUndef
       \<and> (\<forall>k. k \<notin> {''properties'', ''items'', ''required'', ''definitions'',
                   ''unmodifiableProperties'', ''__proto__''}
              \<longrightarrow> getProp out k = clone (getProp schema k))"
proof -
  obtain n props ret where
    p: "propertiesOf m path schema (requiredOf m schema) = Inr props"
    and d: "deriveKeys (updateSubSchema n root m) props (requiredOf m schema) path schema
          (map fst (ownProps schema)) [] = Some (Inr ret)"
    and out: "out = JObj ret"
    using updateSubSchema_Inr[OF assms(4)] assms(1) by auto
  obtain req where req: "requiredOf m schema = Some req"
    and nc: "firstConflict req (unmodifiableOf m schema) = None"
    and ap: "getProp schema ''additionalProperties'' = JBool False"
    and un: "\<forall>p. JStr p \<in> set (unmodifiableOf m schema) \<longrightarrow> p \<notin> set props"
    using propertiesOf_Inr[OF p assms(2,3)] by blast
  have "getProp schema ''properties'' \<noteq> JUndef" using assms(2) by auto
  then obtain kvs where kvs: "schema = JObj kvs" "''properties'' \<in> set (map fst kvs)"
    using getProp_defined_JObj[of schema "''properties''" "getProp schema ''properties''"]
    by (auto simp: arrayIndex_not_digit)
  have rq: "''required'' \<in> set (map fst kvs)"
    using req kvs(1) by (auto simp: requiredOf_def Let_def split: if_splits option.splits
        dest: map_of_SomeD intro: rev_image_eqI)
  have d': "deriveKeys (updateSubSchema n root m) props (Some req) path schema (map fst kvs) [] = Some (Inr ret)"
    using d req kvs(1) by simp
  have 1: "getProp out ''required'' = JArr req"
    using deriveKeys_required[OF d' rq] out by simp
  have 2: "\<forall>p. JStr p \<in> set (unmodifiableOf m schema) \<longrightarrow> JStr p \<notin> set req"
    using firstConflict_none[OF nc] includesJs_name by blast
  obtain ps where ps: "map_of ret ''properties'' = Some (JObj ps)" "\<forall>p. p \<notin> set props \<longrightarrow> map_of ps p = None"
    using deriveKeys_properties[OF d' kvs(2)] by blast
  have 3: "getProp out ''properties'' = JObj ps \<and> (\<forall>p. JStr p \<in> set (unmodifiableOf m schema) \<longrightarrow> map_of ps p = None)"
    using ps un out by simp
  have 4: "getProp out ''definitions'' = JUndef" "getProp out ''unmodifiableProperties'' = JUndef"
    using deriveKeys_dropped[OF d', of "''definitions''"] deriveKeys_dropped[OF d', of "''unmodifiableProperties''"] out
    by simp_all
  have 5: "getProp out k = clone (getProp schema k)"
    if k: "k \<notin> {''properties'', ''items'', ''required'', ''definitions'',
                 ''unmodifiableProperties'', ''__proto__''}" for k
  proof (cases "k \<in> set (map fst kvs)")
    case True
    then show ?thesis using deriveKeys_clone[OF d' True k] out by simp
  next
    case False
    then have "map_of kvs k = None" by (simp add: map_of_eq_None_iff)
    then show ?thesis using deriveKeys_notin[OF d' False] out kvs(1) by simp
  qed
  show ?thesis using ap req 1 2 3 4 5 by blast
qed

section \<open>C10: a field that is null\<close>




section \<open>C1: the round trip of a document\<close>

text \<open>
  Claim C1 promises a result for every document that conforms to its schema. The code
  throws on a conforming document: an object or array field that the schema gives no
  sub-schema for is converted with the schema \<open>null\<close> (or \<open>undefined\<close> in an array), and
  \<open>convertElement\<close> starts by reading \<open>schema.$ref\<close>. For every type registry, converting
  \<open>{meta: {info: {a: 1}}, n: '42'}\<close> to storage form against
  \<open>{type: 'object', properties: {meta: {type: 'object'}, n: {type: 'string', mongoType: 'int32'}}}\<close>
  throws a \<open>TypeError\<close>, and so does the reverse direction, so that no round trip exists.
\<close>

theorem nested_object_without_schema_throws:
  "documentToDbFormat reg nestedDocument nestedSchema = Inl TypeError
   \<and> dbFormatToDocument reg nestedDocument nestedSchema = Inl TypeError
   \<and> convertElement cv root JNull (DObj kvs) = Inl TypeError
   \<and> convertElement cv root JUndef (DArr xs) = Inl TypeError"
proof -
  have n: "convertDocument nestedDocument nestedSchema cv' = Inl TypeError" for cv'
    by (simp add: convertDocument_def nestedDocument_def nestedSchema_def resolveElementRef_def
        hasPropertySchema_def propertySchema_def member_def builtinObject_def
        objectPrototypeNames_def)
  show ?thesis
    using n by (simp add: documentToDbFormat_def dbFormatToDocument_def resolveElementRef_def)
qed

theorem nested_object_without_schema_throws_witness:
  "documentToDbFormat \<lparr>toDbFunctions = [], fromDbFunctions = []\<rparr>
     nestedDocument nestedSchema = Inl TypeError"
  using nested_object_without_schema_throws[of "\<lparr>toDbFunctions = [], fromDbFunctions = []\<rparr>"]
  by simp

end
